theory Spec2Isabelle
  imports Main "HOL-Library.Word"
begin

unbundle bit_operations_syntax

section \<open>The RakNet listener of listener.go\<close>

text \<open>
  A shallow embedding of \<^verbatim>\<open>src/listener.go\<close>. Every method of \<^verbatim>\<open>Listener\<close> becomes a
  function that takes the listener's state and returns the new state together with what
  the method returns. A panic, a blocked channel send and a returned \<^verbatim>\<open>error\<close> are values.

  Bytes are \<open>8 word\<close>, Go's \<^verbatim>\<open>int16\<close> is \<open>16 word\<close> and \<^verbatim>\<open>int64\<close> is \<open>64 word\<close>
  (read with \<open>sint\<close>). A \<^verbatim>\<open>net.Addr\<close> is represented by the string its \<^verbatim>\<open>String()\<close>
  method returns, which is the only way the listener keys its session table.
\<close>

type_synonym byte = "8 word"
type_synonym int16 = "16 word"
type_synonym int64 = "64 word"
type_synonym addr = string

subsection \<open>Errors and panics\<close>

text \<open>One constructor for each \<^verbatim>\<open>fmt.Errorf\<close> of the file, in the order of the source.\<close>

datatype error =
    ErrAcceptListenerClosed
  | ErrClosingConn addr "error option"
  | ErrClosingUDPListener
  | ErrResolvingUDPAddress
  | ErrReadingPacketID
  | ErrUnknownPacket byte "byte list"
  | ErrReadingOpenConnectionRequest2
  | ErrWritingOpenConnectionReply2
  | ErrSendingOpenConnectionReply2
  | ErrReadingOpenConnectionRequest1
  | ErrWritingIncompatibleProtocolVersion
  | ErrSendingIncompatibleProtocolVersion
  | ErrIncompatibleProtocolVersion byte byte
  | ErrWritingOpenConnectionReply1
  | ErrSendingOpenConnectionReply1
  | ErrReadingUnconnectedPing
  | ErrWritingUnconnectedPong
  | ErrSendingUnconnectedPong
  | ErrConnReceive
  | ErrConnClose
  | ErrPing

datatype panic =
    PanicPongDataTooLong
  | PanicSliceBoundsOutOfRange
  | PanicSendOnClosedChannel

subsection \<open>The session handle\<close>

text \<open>
  Modelled from the spec: the type \<^verbatim>\<open>Conn\<close>, its constructor \<^verbatim>\<open>newConn\<close> and its methods
  \<^verbatim>\<open>receive\<close> and \<^verbatim>\<open>Close\<close> are declared in a file of the repository that is not under
  \<^verbatim>\<open>src/\<close>. The spec gives the interface the listener consumes:
  \<^verbatim>\<open>newSession(socket, remoteAddr, mtu, clientGUID)\<close>, \<^verbatim>\<open>receive(rawBytes) -> error\<close>,
  \<^verbatim>\<open>close() -> error\<close>, and a completion and a closed signal. The record keeps what
  \<^verbatim>\<open>newConn\<close> is given, logs what \<^verbatim>\<open>receive\<close> is given, and has one flag for the closed
  signal. Whether \<^verbatim>\<open>receive\<close> and \<^verbatim>\<open>Close\<close> return an error is a parameter of the model
  (see \<open>environment\<close> below). A session is given the socket, its peer's address, the
  MTU and the GUID only: it holds no reference to the listener or to its session table.
\<close>

record Conn =
  conn_addr :: addr
  conn_mtuSize :: int16
  conn_guid :: int64
  conn_received :: "byte list list"
  conn_closed :: bool

definition newConn :: "addr \<Rightarrow> int16 \<Rightarrow> int64 \<Rightarrow> Conn" where
  "newConn a mtu guid =
     \<lparr>conn_addr = a, conn_mtuSize = mtu, conn_guid = guid, conn_received = [],
      conn_closed = False\<rparr>"

subsection \<open>Packets, constants and the environment\<close>

text \<open>
  The packet structs are declared in a file of the repository that is not under \<^verbatim>\<open>src/\<close>.
  Each record below has the fields that \<^verbatim>\<open>listener.go\<close> reads or sets, under the names it
  uses (prefixed, since record fields share one name space).
\<close>

record unconnectedPing =
  ping_SendTimestamp :: int64

record unconnectedPong =
  pong_Magic :: "byte list"
  pong_ServerGUID :: int64
  pong_SendTimestamp :: int64

record openConnectionRequest1 =
  req1_Protocol :: byte

record incompatibleProtocolVersion =
  ipv_Magic :: "byte list"
  ipv_ServerGUID :: int64
  ipv_ServerProtocol :: byte

record openConnectionReply1 =
  reply1_Magic :: "byte list"
  reply1_ServerGUID :: int64
  reply1_MTUSize :: int16

record openConnectionRequest2 =
  req2_MTUSize :: int16
  req2_ClientGUID :: int64

record openConnectionReply2 =
  reply2_Magic :: "byte list"
  reply2_ServerGUID :: int64
  reply2_ClientAddress :: addr
  reply2_MTUSize :: int16

text \<open>
  What \<^verbatim>\<open>listener.go\<close> uses and does not declare is a parameter of the model, collected
  in one record:
  \<^item> the constants \<^verbatim>\<open>MinecraftProtocol\<close>, \<^verbatim>\<open>bitFlagValid\<close>, \<^verbatim>\<open>magic\<close> and the packet ids;
  \<^item> the wire layout of each packet struct: \<open>read...\<close> is \<^verbatim>\<open>binary.Read\<close> or
    \<^verbatim>\<open>UnmarshalBinary\<close> on the unread bytes of the buffer (\<open>None\<close> when it returns an
    error), \<open>write...\<close> is \<^verbatim>\<open>binary.Write\<close> or \<^verbatim>\<open>MarshalBinary\<close> (\<open>None\<close> when it
    returns an error);
  \<^item> the network and the sessions: whether a \<^verbatim>\<open>WriteTo\<close> on the socket, a \<^verbatim>\<open>receive\<close> or a
    \<^verbatim>\<open>Close\<close> of a session, or the \<^verbatim>\<open>Close\<close> of the socket returns an error.
\<close>

record environment =
  MinecraftProtocol :: byte
  bitFlagValid :: byte
  magic :: "byte list"
  idUnconnectedPing :: byte
  idUnconnectedPong :: byte
  idOpenConnectionRequest1 :: byte
  idOpenConnectionReply1 :: byte
  idOpenConnectionRequest2 :: byte
  idOpenConnectionReply2 :: byte
  idIncompatibleProtocolVersion :: byte
  readUnconnectedPing :: "byte list \<Rightarrow> unconnectedPing option"
  readOpenConnectionRequest1 :: "byte list \<Rightarrow> openConnectionRequest1 option"
  unmarshalOpenConnectionRequest2 :: "byte list \<Rightarrow> openConnectionRequest2 option"
  writeUnconnectedPong :: "unconnectedPong \<Rightarrow> byte list option"
  writeOpenConnectionReply1 :: "openConnectionReply1 \<Rightarrow> byte list option"
  writeIncompatibleProtocolVersion :: "incompatibleProtocolVersion \<Rightarrow> byte list option"
  marshalOpenConnectionReply2 :: "openConnectionReply2 \<Rightarrow> byte list option"
  writeToFails :: "byte list \<Rightarrow> addr \<Rightarrow> bool"
  receiveFails :: "Conn \<Rightarrow> byte list \<Rightarrow> bool"
  closeFails :: "Conn \<Rightarrow> bool"
  socketCloseFails :: bool

subsection \<open>The listener\<close>

text \<open>
  The fields of \<^verbatim>\<open>Listener\<close>. The socket \<^verbatim>\<open>conn\<close> is its log of datagrams written with
  \<^verbatim>\<open>WriteTo\<close> and a closed flag. Sessions are shared by pointer between the session
  table, the channel \<^verbatim>\<open>incoming\<close> and the callers of \<^verbatim>\<open>Accept\<close>, so they live in a store
  (\<open>conns\<close>, a pointer is an index into it). The table \<^verbatim>\<open>connections\<close> is an association
  list from address strings to pointers. The channel \<^verbatim>\<open>incoming\<close> is the queue of its
  buffered values and a closed flag. \<open>watchers\<close> are the sessions for which \<^verbatim>\<open>Accept\<close>
  started the goroutine that deletes the table entry once the session is closed.
  \<open>ErrorLog\<close> is the list of what \<^verbatim>\<open>listen\<close> printed to the logger.
\<close>

record Listener =
  ErrorLog :: "(addr \<times> error) list"
  Protocol :: byte
  written :: "(byte list \<times> addr) list"
  socket_closed :: bool
  incoming :: "nat list"
  incoming_closed :: bool
  connections :: "(addr \<times> nat) list"
  conns :: "Conn list"
  watchers :: "nat list"
  closeCtx_done :: bool
  listener_id :: int64
  pongData :: "byte list"
  protocol :: byte

text \<open>
  \<^verbatim>\<open>Listen\<close>, when \<^verbatim>\<open>net.ListenPacket\<close> succeeds. \<open>r\<close> is the random source behind
  \<^verbatim>\<open>rand.Int63()\<close>, which returns a non-negative 63-bit number.
\<close>

definition Listen :: "environment \<Rightarrow> nat \<Rightarrow> Listener" where
  "Listen env r =
     \<lparr>ErrorLog = [],
      Protocol = MinecraftProtocol env,
      written = [],
      socket_closed = False,
      incoming = [],
      incoming_closed = False,
      connections = [],
      conns = [],
      watchers = [],
      closeCtx_done = False,
      listener_id = word_of_nat (r mod 2 ^ 63),
      pongData = [],
      protocol = MinecraftProtocol env\<rparr>"

text \<open>The capacity of the channel \<^verbatim>\<open>incoming\<close>: \<^verbatim>\<open>make(chan *Conn, 128)\<close>.\<close>

definition incomingCap :: nat where
  "incomingCap = 128"

subsection \<open>PongData\<close>

text \<open>\<^verbatim>\<open>math.MaxInt16\<close>.\<close>

definition MaxInt16 :: nat where
  "MaxInt16 = 32767"

text \<open>
  \<^verbatim>\<open>func (listener *Listener) PongData(data []byte)\<close>: panics when the data is longer
  than \<^verbatim>\<open>math.MaxInt16\<close>, stores it otherwise.
\<close>

definition PongData :: "Listener \<Rightarrow> byte list \<Rightarrow> panic + Listener" where
  "PongData l data =
     (if length data > MaxInt16 then Inl PanicPongDataTooLong
      else Inr (l\<lparr>pongData := data\<rparr>))"

subsection \<open>Byte slices and the helpers of the standard library\<close>

text \<open>
  A Go slice has a length and a capacity. \<open>elems\<close> are the bytes below the length and
  \<open>spare\<close> the bytes of the backing array between the length and the capacity. A slice
  expression \<^verbatim>\<open>s[:n]\<close> on a slice is in range when \<^verbatim>\<open>n <= cap(s)\<close> (not \<^verbatim>\<open>len(s)\<close>) and
  panics otherwise.
\<close>

record byte_slice =
  elems :: "byte list"
  spare :: "byte list"

definition slice_to :: "byte_slice \<Rightarrow> nat \<Rightarrow> panic + byte list" where
  "slice_to s n =
     (if n \<le> length (elems s) + length (spare s) then Inr (take n (elems s @ spare s))
      else Inl PanicSliceBoundsOutOfRange)"

text \<open>The ASCII bytes of \<^verbatim>\<open>';'\<close>, \<^verbatim>\<open>"MCPE"\<close> and \<^verbatim>\<open>"Proxy"\<close>.\<close>

definition semicolon :: byte where
  "semicolon = 0x3B"

definition MCPE :: "byte list" where
  "MCPE = [0x4D, 0x43, 0x50, 0x45]"

definition Proxy :: "byte list" where
  "Proxy = [0x50, 0x72, 0x6F, 0x78, 0x79]"

text \<open>
  \<^verbatim>\<open>bytes.Split(s, sep)\<close> for a separator of one byte: the subslices between the
  separators, one more than there are separators (so one empty field for empty input).
\<close>

fun Split :: "byte list \<Rightarrow> byte \<Rightarrow> byte list list" where
  "Split [] sep = [[]]"
| "Split (x # xs) sep =
     (if x = sep then [] # Split xs sep
      else (case Split xs sep of [] \<Rightarrow> [[x]] | f # fs \<Rightarrow> (x # f) # fs))"

text \<open>\<^verbatim>\<open>bytes.Join(s, sep)\<close> for a separator of one byte.\<close>

fun Join :: "byte list list \<Rightarrow> byte \<Rightarrow> byte list" where
  "Join [] sep = []"
| "Join [f] sep = f"
| "Join (f # g # fs) sep = f @ sep # Join (g # fs) sep"

text \<open>\<^verbatim>\<open>strconv.Itoa\<close>: the decimal digits, with a minus sign for a negative number.\<close>

definition digitBytes :: "byte list" where
  "digitBytes = [0x30, 0x31, 0x32, 0x33, 0x34, 0x35, 0x36, 0x37, 0x38, 0x39]"

function natDigits :: "nat \<Rightarrow> byte list" where
  "natDigits n =
     (if n < 10 then [digitBytes ! n]
      else natDigits (n div 10) @ [digitBytes ! (n mod 10)])"
  by pat_completeness auto
termination
  by (relation "measure (\<lambda>n. n)") auto

definition Itoa :: "int \<Rightarrow> byte list" where
  "Itoa i = (if i < 0 then 0x2D # natDigits (nat (- i)) else natDigits (nat i))"

subsection \<open>HijackPong\<close>

text \<open>
  The loop \<^verbatim>\<open>for len(fragments) < 9 { fragments = append(fragments, nil) }\<close>.
\<close>

function appendFragments :: "byte list list \<Rightarrow> byte list list" where
  "appendFragments fragments =
     (if length fragments < 9 then appendFragments (fragments @ [[]]) else fragments)"
  by pat_completeness auto
termination
  by (relation "measure (\<lambda>fragments. 9 - length fragments)") auto

text \<open>
  The branch taken for a payload with the marker: split at the semicolons, pad to 9
  fragments, cut to 9 fragments, overwrite the fragments 6, 7 and 8, join. The listener's
  \<^verbatim>\<open>int64\<close> id is converted with \<^verbatim>\<open>int(listener.id)\<close> (64 bits).
\<close>

definition rewriteFragments :: "int64 \<Rightarrow> byte list \<Rightarrow> byte list list" where
  "rewriteFragments lid data =
     (let fragments = Split data semicolon;
          fragments = appendFragments fragments;
          fragments = take 9 fragments;
          fragments = fragments[6 := Itoa (sint lid)];
          fragments = fragments[7 := Proxy];
          fragments = fragments[8 := []]
      in fragments)"

text \<open>The test \<^verbatim>\<open>string(data[:4]) == "MCPE"\<close>.\<close>

definition hasMarker :: "byte_slice \<Rightarrow> panic + bool" where
  "hasMarker data =
     (case slice_to data 4 of Inl p \<Rightarrow> Inl p | Inr prefix \<Rightarrow> Inr (prefix = MCPE))"

text \<open>
  One tick of the goroutine of \<^verbatim>\<open>HijackPong\<close>. \<^verbatim>\<open>Dialer.Ping\<close> is not under \<^verbatim>\<open>src/\<close>; what
  it returns (an error, or the payload as a slice) is the argument \<open>fetched\<close>. A panic
  ends the goroutine and with it the program.
\<close>

definition hijackTick :: "Listener \<Rightarrow> error + byte_slice \<Rightarrow> panic + Listener" where
  "hijackTick l fetched =
     (case fetched of
        Inl err \<Rightarrow> Inr l
      | Inr data \<Rightarrow>
          (case hasMarker data of
             Inl p \<Rightarrow> Inl p
           | Inr True \<Rightarrow>
               PongData l (Join (rewriteFragments (listener_id l) (elems data)) semicolon)
           | Inr False \<Rightarrow> PongData l (elems data)))"

text \<open>
  The goroutine: one \<open>Tick\<close> for each time the ticker fires, until the shared context is
  cancelled. With no event left the goroutine waits.
\<close>

datatype hijack_event = Tick "error + byte_slice" | CloseCtxDone

fun hijackLoop :: "Listener \<Rightarrow> hijack_event list \<Rightarrow> panic + Listener" where
  "hijackLoop l [] = Inr l"
| "hijackLoop l (CloseCtxDone # es) = Inr l"
| "hijackLoop l (Tick fetched # es) =
     (case hijackTick l fetched of Inl p \<Rightarrow> Inl p | Inr l' \<Rightarrow> hijackLoop l' es)"

text \<open>
  \<^verbatim>\<open>HijackPong\<close>: an error when the address does not resolve (\<open>resolves\<close> is what
  \<^verbatim>\<open>net.ResolveUDPAddr\<close> finds); otherwise \<^verbatim>\<open>nil\<close>, and the goroutine runs.
\<close>

definition HijackPong ::
  "bool \<Rightarrow> Listener \<Rightarrow> hijack_event list \<Rightarrow> error option \<times> (panic + Listener)" where
  "HijackPong resolves l events =
     (if \<not> resolves then (Some ErrResolvingUDPAddress, Inr l)
      else (None, hijackLoop l events))"

subsection \<open>The session table and the socket\<close>

text \<open>
  \<^verbatim>\<open>sync.Map\<close>: \<^verbatim>\<open>Load\<close>, \<^verbatim>\<open>Store\<close> and \<^verbatim>\<open>Delete\<close> on the association list. \<^verbatim>\<open>Store\<close>
  replaces the entry of the key. The order of the list is the order in which \<^verbatim>\<open>Range\<close>
  visits the entries, which Go leaves open.
\<close>

definition Load :: "(addr \<times> nat) list \<Rightarrow> addr \<Rightarrow> nat option" where
  "Load m k = map_of m k"

definition Delete :: "(addr \<times> nat) list \<Rightarrow> addr \<Rightarrow> (addr \<times> nat) list" where
  "Delete m k = filter (\<lambda>e. fst e \<noteq> k) m"

definition Store :: "(addr \<times> nat) list \<Rightarrow> addr \<Rightarrow> nat \<Rightarrow> (addr \<times> nat) list" where
  "Store m k v = Delete m k @ [(k, v)]"

text \<open>
  \<^verbatim>\<open>listener.conn.WriteTo(b.Bytes(), addr)\<close>: the datagram is appended to the log of the
  socket, unless the socket is closed or the network refuses the write.
\<close>

definition WriteTo :: "environment \<Rightarrow> Listener \<Rightarrow> byte list \<Rightarrow> addr \<Rightarrow> bool \<times> Listener" where
  "WriteTo env l b a =
     (if socket_closed l \<or> writeToFails env b a then (False, l)
      else (True, l\<lparr>written := written l @ [(b, a)]\<rparr>))"

text \<open>
  \<^verbatim>\<open>conn.receive(b)\<close> and \<^verbatim>\<open>conn.Close()\<close> on the session behind a pointer: the session
  logs the datagram, or raises its closed signal.
\<close>

definition receive :: "environment \<Rightarrow> Listener \<Rightarrow> nat \<Rightarrow> byte list \<Rightarrow> error option \<times> Listener" where
  "receive env l p b =
     (let conn = conns l ! p
      in (if receiveFails env conn b then Some ErrConnReceive else None,
          l\<lparr>conns := (conns l)[p := conn\<lparr>conn_received := conn_received conn @ [b]\<rparr>]\<rparr>))"

definition connClose :: "environment \<Rightarrow> Listener \<Rightarrow> nat \<Rightarrow> error option \<times> Listener" where
  "connClose env l p =
     (let conn = conns l ! p
      in (if closeFails env conn then Some ErrConnClose else None,
          l\<lparr>conns := (conns l)[p := conn\<lparr>conn_closed := True\<rparr>]\<rparr>))"

subsection \<open>The handlers of offline packets\<close>

text \<open>
  What a call of \<^verbatim>\<open>handle\<close> comes to: it returns (an error or \<^verbatim>\<open>nil\<close>), it blocks on the
  send to the full channel \<^verbatim>\<open>incoming\<close>, or it panics.
\<close>

datatype outcome = Returned "error option" | Blocked | Panicked panic

text \<open>\<^verbatim>\<open>binary.Write(b, binary.BigEndian, v)\<close> for an \<^verbatim>\<open>int16\<close>: two bytes, high byte first.\<close>

definition putInt16 :: "int16 \<Rightarrow> byte list" where
  "putInt16 v = [ucast (drop_bit 8 v), ucast v]"

text \<open>
  In the handlers \<open>b\<close> is the unread part of the \<^verbatim>\<open>bytes.Buffer\<close>: \<^verbatim>\<open>b.Bytes()\<close>. After
  \<^verbatim>\<open>b.Reset()\<close> it is empty, and \<^verbatim>\<open>WriteByte\<close> and \<^verbatim>\<open>Write\<close> append to it (on a
  \<^verbatim>\<open>bytes.Buffer\<close> both always return a \<^verbatim>\<open>nil\<close> error).
\<close>

definition handleUnconnectedPing ::
  "environment \<Rightarrow> Listener \<Rightarrow> byte list \<Rightarrow> addr \<Rightarrow> outcome \<times> Listener" where
  "handleUnconnectedPing env l b a =
     (case readUnconnectedPing env b of
        None \<Rightarrow> (Returned (Some ErrReadingUnconnectedPing), l)
      | Some packet \<Rightarrow>
          (let b = [];
               pongData' = pongData l;
               response = \<lparr>pong_Magic = magic env, pong_ServerGUID = listener_id l,
                           pong_SendTimestamp = ping_SendTimestamp packet\<rparr>;
               b = b @ [idUnconnectedPong env]
           in case writeUnconnectedPong env response of
                None \<Rightarrow> (Returned (Some ErrWritingUnconnectedPong), l)
              | Some enc \<Rightarrow>
                  (let b = b @ enc;
                       b = (if protocol l = MinecraftProtocol env
                            then b @ putInt16 (word_of_nat (length pongData'))
                            else b);
                       b = b @ pongData'
                   in case WriteTo env l b a of
                        (False, l') \<Rightarrow> (Returned (Some ErrSendingUnconnectedPong), l')
                      | (True, l') \<Rightarrow> (Returned None, l'))))"

text \<open>
  \<^verbatim>\<open>mtuSize := len(b.Bytes()) + 1\<close> is taken when the packet id has been read from the
  buffer already; the reply has \<^verbatim>\<open>int16(mtuSize) + 28\<close>, an addition of \<^verbatim>\<open>int16\<close>.
\<close>

definition handleOpenConnectionRequest1 ::
  "environment \<Rightarrow> Listener \<Rightarrow> byte list \<Rightarrow> addr \<Rightarrow> outcome \<times> Listener" where
  "handleOpenConnectionRequest1 env l b a =
     (let mtuSize = length b + 1
      in case readOpenConnectionRequest1 env b of
           None \<Rightarrow> (Returned (Some ErrReadingOpenConnectionRequest1), l)
         | Some packet \<Rightarrow>
             (let b = []
              in if req1_Protocol packet \<noteq> protocol l then
                   (let response = \<lparr>ipv_Magic = magic env, ipv_ServerGUID = listener_id l,
                                     ipv_ServerProtocol = protocol l\<rparr>;
                        b = b @ [idIncompatibleProtocolVersion env]
                    in case writeIncompatibleProtocolVersion env response of
                         None \<Rightarrow> (Returned (Some ErrWritingIncompatibleProtocolVersion), l)
                       | Some enc \<Rightarrow>
                           (let b = b @ enc
                            in case WriteTo env l b a of
                                 (False, l') \<Rightarrow>
                                   (Returned (Some ErrSendingIncompatibleProtocolVersion), l')
                               | (True, l') \<Rightarrow>
                                   (Returned (Some (ErrIncompatibleProtocolVersion
                                      (req1_Protocol packet) (protocol l))), l')))
                 else
                   (let response = \<lparr>reply1_Magic = magic env, reply1_ServerGUID = listener_id l,
                                     reply1_MTUSize = word_of_nat mtuSize + 28\<rparr>;
                        b = b @ [idOpenConnectionReply1 env]
                    in case writeOpenConnectionReply1 env response of
                         None \<Rightarrow> (Returned (Some ErrWritingOpenConnectionReply1), l)
                       | Some enc \<Rightarrow>
                           (let b = b @ enc
                            in case WriteTo env l b a of
                                 (False, l') \<Rightarrow>
                                   (Returned (Some ErrSendingOpenConnectionReply1), l')
                               | (True, l') \<Rightarrow> (Returned None, l')))))"

text \<open>
  The send \<^verbatim>\<open>listener.incoming <- conn\<close> blocks while the channel holds 128 sessions and
  panics on a closed channel. The session is stored in the table before the send.
\<close>

definition handleOpenConnectionRequest2 ::
  "environment \<Rightarrow> Listener \<Rightarrow> byte list \<Rightarrow> addr \<Rightarrow> outcome \<times> Listener" where
  "handleOpenConnectionRequest2 env l b a =
     (case unmarshalOpenConnectionRequest2 env b of
        None \<Rightarrow> (Returned (Some ErrReadingOpenConnectionRequest2), l)
      | Some packet \<Rightarrow>
          (let b = [];
               address = a;
               response = \<lparr>reply2_Magic = magic env, reply2_ServerGUID = listener_id l,
                           reply2_ClientAddress = address,
                           reply2_MTUSize = req2_MTUSize packet\<rparr>;
               b = b @ [idOpenConnectionReply2 env]
           in case marshalOpenConnectionReply2 env response of
                None \<Rightarrow> (Returned (Some ErrWritingOpenConnectionReply2), l)
              | Some data \<Rightarrow>
                  (let b = b @ data
                   in case WriteTo env l b a of
                        (False, l') \<Rightarrow> (Returned (Some ErrSendingOpenConnectionReply2), l')
                      | (True, l') \<Rightarrow>
                          (let conn = newConn a (req2_MTUSize packet) (req2_ClientGUID packet);
                               p = length (conns l');
                               l' = l'\<lparr>conns := conns l' @ [conn]\<rparr>;
                               l' = l'\<lparr>connections := Store (connections l') a p\<rparr>
                           in if incoming_closed l' then
                                (Panicked PanicSendOnClosedChannel, l')
                              else if incomingCap \<le> length (incoming l') then (Blocked, l')
                              else (Returned None, l'\<lparr>incoming := incoming l' @ [p]\<rparr>)))))"

text \<open>
  \<^verbatim>\<open>handle\<close>: the datagram \<open>b\<close> from the address \<open>a\<close>. With a session in the table the
  whole buffer goes to the session; otherwise the first byte selects the handler, which
  gets the rest.
\<close>

definition handle :: "environment \<Rightarrow> Listener \<Rightarrow> byte list \<Rightarrow> addr \<Rightarrow> outcome \<times> Listener" where
  "handle env l b a =
     (case Load (connections l) a of
        None \<Rightarrow>
          (case b of
             [] \<Rightarrow> (Returned (Some ErrReadingPacketID), l)
           | packetID # b' \<Rightarrow>
               if packetID = idUnconnectedPing env then handleUnconnectedPing env l b' a
               else if packetID = idOpenConnectionRequest1 env then
                 handleOpenConnectionRequest1 env l b' a
               else if packetID = idOpenConnectionRequest2 env then
                 handleOpenConnectionRequest2 env l b' a
               else if packetID AND bitFlagValid env = 0 then
                 (Returned (Some (ErrUnknownPacket packetID b')), l)
               else (Returned None, l))
      | Some p \<Rightarrow> (case receive env l p b of (err, l') \<Rightarrow> (Returned err, l')))"

text \<open>
  \<^verbatim>\<open>listen\<close>: one event for each return of \<^verbatim>\<open>ReadFrom\<close>. The read buffer has 1500 bytes,
  so a longer datagram is cut. An error of \<^verbatim>\<open>handle\<close> is logged and the loop goes on; a
  read error closes the channel \<^verbatim>\<open>incoming\<close> and ends the loop.
\<close>

datatype read_event = ReadFrom "byte list" addr | ReadError

fun listen :: "environment \<Rightarrow> Listener \<Rightarrow> read_event list \<Rightarrow> outcome \<times> Listener" where
  "listen env l [] = (Returned None, l)"
| "listen env l (ReadError # es) = (Returned None, l\<lparr>incoming_closed := True\<rparr>)"
| "listen env l (ReadFrom datagram a # es) =
     (let buffer = take 1500 datagram
      in case handle env l buffer a of
           (Returned None, l') \<Rightarrow> listen env l' es
         | (Returned (Some err), l') \<Rightarrow>
             listen env (l'\<lparr>ErrorLog := ErrorLog l' @ [(a, err)]\<rparr>) es
         | (Blocked, l') \<Rightarrow> (Blocked, l')
         | (Panicked p, l') \<Rightarrow> (Panicked p, l'))"

subsection \<open>Accept\<close>

text \<open>
  The \<^verbatim>\<open>select\<close> of \<^verbatim>\<open>Accept\<close> waits for the first of three signals. Which one fires for
  a candidate session depends on time and on the other goroutines, so it is an argument
  of the model: \<open>sel p\<close> is the case that fires while \<^verbatim>\<open>Accept\<close> waits for the session
  behind the pointer \<open>p\<close>.
\<close>

datatype select_case = CloseCtx_Done | CompletingSequence_Done | Time_After

text \<open>
  What a call of \<^verbatim>\<open>Accept\<close> comes to: a session, the error, or it stays blocked in the
  receive from the open and empty channel.
\<close>

datatype accept_result = Accepted nat | AcceptError error | AcceptBlocked

text \<open>
  The loop of \<^verbatim>\<open>Accept\<close> (\<^verbatim>\<open>goto accept\<close>) over the sessions buffered in the channel.
  On \<^verbatim>\<open>completingSequence.Done()\<close> the goroutine that waits for the session to close is
  started; on the timeout the session is closed and the loop takes the next one.
\<close>

fun AcceptFrom ::
  "(nat \<Rightarrow> select_case) \<Rightarrow> environment \<Rightarrow> nat list \<Rightarrow> Listener \<Rightarrow> accept_result \<times> Listener" where
  "AcceptFrom sel env [] l =
     (if incoming_closed l then (AcceptError ErrAcceptListenerClosed, l\<lparr>incoming := []\<rparr>)
      else (AcceptBlocked, l\<lparr>incoming := []\<rparr>))"
| "AcceptFrom sel env (p # queue) l =
     (case sel p of
        CloseCtx_Done \<Rightarrow> (AcceptError ErrAcceptListenerClosed, l\<lparr>incoming := queue\<rparr>)
      | CompletingSequence_Done \<Rightarrow>
          (Accepted p, l\<lparr>incoming := queue, watchers := watchers l @ [p]\<rparr>)
      | Time_After \<Rightarrow> AcceptFrom sel env queue (snd (connClose env l p)))"

definition Accept ::
  "(nat \<Rightarrow> select_case) \<Rightarrow> environment \<Rightarrow> Listener \<Rightarrow> accept_result \<times> Listener" where
  "Accept sel env l = AcceptFrom sel env (incoming l) l"

text \<open>
  The goroutine started by \<^verbatim>\<open>Accept\<close>: once the session behind \<open>p\<close> is closed it deletes
  the table entry of the session's address.
\<close>

definition watcher :: "Listener \<Rightarrow> nat \<Rightarrow> Listener" where
  "watcher l p =
     (if p \<in> set (watchers l) \<and> conn_closed (conns l ! p) then
        l\<lparr>connections := Delete (connections l) (conn_addr (conns l ! p)),
          watchers := removeAll p (watchers l)\<rparr>
      else l)"

subsection \<open>Close\<close>

text \<open>
  The function given to \<^verbatim>\<open>connections.Range\<close>: it closes the session and then tests
  \<^verbatim>\<open>err != nil\<close> (the variable of \<^verbatim>\<open>Close\<close>, not \<^verbatim>\<open>closeErr\<close>) before it sets \<^verbatim>\<open>err\<close>. It
  returns \<^verbatim>\<open>true\<close>, so \<^verbatim>\<open>Range\<close> visits every entry.
\<close>

definition closeEntry ::
  "environment \<Rightarrow> error option \<times> Listener \<Rightarrow> addr \<times> nat \<Rightarrow> error option \<times> Listener" where
  "closeEntry env acc e =
     (case acc of
        (err, l) \<Rightarrow>
          (let conn = conns l ! snd e
           in case connClose env l (snd e) of
                (closeErr, l') \<Rightarrow>
                  (if err \<noteq> None then Some (ErrClosingConn (conn_addr conn) closeErr)
                   else err,
                   l')))"

text \<open>
  \<^verbatim>\<open>Close\<close>: cancel the context, close the sessions of the table, return \<^verbatim>\<open>err\<close> if it
  is set, close the socket otherwise.
\<close>

definition Close :: "environment \<Rightarrow> Listener \<Rightarrow> error option \<times> Listener" where
  "Close env l =
     (let l = l\<lparr>closeCtx_done := True\<rparr>
      in case foldl (closeEntry env) (None, l) (connections l) of
           (err, l) \<Rightarrow>
             if err \<noteq> None then (err, l)
             else if socket_closed l \<or> socketCloseFails env then
               (Some ErrClosingUDPListener, l)
             else (None, l\<lparr>socket_closed := True\<rparr>))"

subsection \<open>A sample environment\<close>

text \<open>
  Modelled from the spec: the constants and the packet layouts are declared in files of
  the repository that are not under \<^verbatim>\<open>src/\<close>. The theorems below hold for every
  environment; this one instance is used to run the model on concrete datagrams. Its
  layouts follow the wire layout of the spec (big-endian): Ping \<open>{id, timestamp}\<close>, Pong
  \<open>{id, server GUID, echoed timestamp, ...}\<close>, OpenConnectionRequest1
  \<open>{id, 16-byte magic, protocol byte, padding}\<close>, OpenConnectionReply1
  \<open>{magic, server GUID, security flag, MTU}\<close>, IncompatibleProtocolVersion
  \<open>{magic, server GUID, protocol}\<close>, OpenConnectionRequest2
  \<open>{magic, address, MTU, client GUID}\<close> with an address of 7 bytes, OpenConnectionReply2
  \<open>{magic, server GUID, address, MTU, encryption flag}\<close>. The packet ids, the flag and
  the magic are those of the RakNet protocol; the protocol version is a sample value.
\<close>

definition putInt64 :: "int64 \<Rightarrow> byte list" where
  "putInt64 v = map (\<lambda>i. ucast (drop_bit (8 * i) v)) [7, 6, 5, 4, 3, 2, 1, 0]"

definition getInt64 :: "byte list \<Rightarrow> int64" where
  "getInt64 bs = foldl (\<lambda>acc b. push_bit 8 acc OR ucast b) 0 bs"

definition getInt16 :: "byte list \<Rightarrow> int16" where
  "getInt16 bs = foldl (\<lambda>acc b. push_bit 8 acc OR ucast b) 0 bs"

definition addrBytes :: "addr \<Rightarrow> byte list" where
  "addrBytes a = map (\<lambda>c. of_nat (of_char c)) a"

definition sampleMagic :: "byte list" where
  "sampleMagic =
     [0x00, 0xFF, 0xFF, 0x00, 0xFE, 0xFE, 0xFE, 0xFE, 0xFD, 0xFD, 0xFD, 0xFD, 0x12, 0x34,
      0x56, 0x78]"

definition sampleEnv :: environment where
  "sampleEnv =
     \<lparr>MinecraftProtocol = 8,
      bitFlagValid = 0x80,
      magic = sampleMagic,
      idUnconnectedPing = 0x01,
      idUnconnectedPong = 0x1C,
      idOpenConnectionRequest1 = 0x05,
      idOpenConnectionReply1 = 0x06,
      idOpenConnectionRequest2 = 0x07,
      idOpenConnectionReply2 = 0x08,
      idIncompatibleProtocolVersion = 0x19,
      readUnconnectedPing =
        (\<lambda>b. if length b < 8 then None
             else Some \<lparr>ping_SendTimestamp = getInt64 (take 8 b)\<rparr>),
      readOpenConnectionRequest1 =
        (\<lambda>b. if length b < 17 then None else Some \<lparr>req1_Protocol = b ! 16\<rparr>),
      unmarshalOpenConnectionRequest2 =
        (\<lambda>b. if length b < 33 then None
             else Some \<lparr>req2_MTUSize = getInt16 (take 2 (drop 23 b)),
                        req2_ClientGUID = getInt64 (take 8 (drop 25 b))\<rparr>),
      writeUnconnectedPong =
        (\<lambda>r. Some (putInt64 (pong_ServerGUID r) @ putInt64 (pong_SendTimestamp r))),
      writeOpenConnectionReply1 =
        (\<lambda>r. Some (reply1_Magic r @ putInt64 (reply1_ServerGUID r) @ [0]
                    @ putInt16 (reply1_MTUSize r))),
      writeIncompatibleProtocolVersion =
        (\<lambda>r. Some (ipv_Magic r @ putInt64 (ipv_ServerGUID r) @ [ipv_ServerProtocol r])),
      marshalOpenConnectionReply2 =
        (\<lambda>r. Some (reply2_Magic r @ putInt64 (reply2_ServerGUID r)
                    @ addrBytes (reply2_ClientAddress r) @ putInt16 (reply2_MTUSize r) @ [0])),
      writeToFails = (\<lambda>b a. False),
      receiveFails = (\<lambda>conn b. False),
      closeFails = (\<lambda>conn. False),
      socketCloseFails = False\<rparr>"

text \<open>
  Sample datagrams in the layouts of the sample environment: an OpenConnectionRequest1
  with the protocol version \<open>v\<close> (18 bytes), and an OpenConnectionRequest2 with the MTU
  1492 and the client GUID 42. \<open>sampleAddr\<close> is the sender.
\<close>

definition sampleAddr :: addr where
  "sampleAddr = ''10.0.0.2:19132''"

definition sampleRequest1 :: "byte \<Rightarrow> byte list" where
  "sampleRequest1 v = 0x05 # sampleMagic @ [v]"

definition sampleRequest2 :: "byte list" where
  "sampleRequest2 =
     0x07 # sampleMagic @ [0x04, 0x0A, 0x00, 0x00, 0x01, 0x4A, 0xBC] @ [0x05, 0xD4]
       @ [0, 0, 0, 0, 0, 0, 0, 0x2A]"

subsection \<open>Facts about the helpers\<close>

lemma Split_not_Nil: "Split d sep \<noteq> []"
  by (induction d) (auto split: list.splits)

lemma Split_no_sep: "f \<in> set (Split d sep) \<Longrightarrow> sep \<notin> set f"
proof (induction d arbitrary: f)
  case Nil
  then show ?case by simp
next
  case (Cons x xs)
  show ?case
  proof (cases "x = sep")
    case True
    with Cons show ?thesis by auto
  next
    case False
    obtain g gs where sp: "Split xs sep = g # gs"
      using Split_not_Nil [of xs sep] by (cases "Split xs sep") auto
    with Cons False show ?thesis by auto
  qed
qed

lemma Split_no_sep_single: "sep \<notin> set f \<Longrightarrow> Split f sep = [f]"
  by (induction f) auto

lemma Split_append_sep:
  "sep \<notin> set f \<Longrightarrow> Split (f @ sep # rest) sep = f # Split rest sep"
  by (induction f) auto

lemma Split_Join:
  "fs \<noteq> [] \<Longrightarrow> list_all (\<lambda>f. sep \<notin> set f) fs \<Longrightarrow> Split (Join fs sep) sep = fs"
proof (induction fs sep rule: Join.induct)
  case (1 sep)
  then show ?case by simp
next
  case (2 f sep)
  then show ?case by (simp add: Split_no_sep_single)
next
  case (3 f g fs sep)
  then show ?case by (simp add: Split_append_sep)
qed

lemma digitBytes_no_semicolon: "n < 10 \<Longrightarrow> digitBytes ! n \<noteq> semicolon"
proof -
  assume "n < 10"
  moreover have "length digitBytes = 10"
    by (simp add: digitBytes_def)
  ultimately have "digitBytes ! n \<in> set digitBytes"
    by (metis nth_mem)
  moreover have "semicolon \<notin> set digitBytes"
    by (simp add: digitBytes_def semicolon_def)
  ultimately show ?thesis by auto
qed

lemma natDigits_no_semicolon: "semicolon \<notin> set (natDigits n)"
proof (induction n rule: natDigits.induct)
  case (1 n)
  show ?case
  proof (cases "n < 10")
    case True
    then show ?thesis using digitBytes_no_semicolon [of n] by (subst natDigits.simps) auto
  next
    case False
    have "n mod 10 < 10" by simp
    then have "digitBytes ! (n mod 10) \<noteq> semicolon" by (rule digitBytes_no_semicolon)
    with False 1 show ?thesis by (subst natDigits.simps) auto
  qed
qed

lemma Itoa_no_semicolon: "semicolon \<notin> set (Itoa i)"
  using natDigits_no_semicolon by (simp add: Itoa_def) (simp add: semicolon_def)

lemma appendFragments_eq:
  "appendFragments fs = fs @ replicate (9 - length fs) []"
proof (induction fs rule: appendFragments.induct)
  case (1 fragments)
  show ?case
  proof (cases "length fragments < 9")
    case True
    then have "9 - length fragments = Suc (9 - length (fragments @ [[]]))" by simp
    with True 1 show ?thesis
      by (subst appendFragments.simps) (simp add: replicate_app_Cons_same)
  next
    case False
    then show ?thesis by (subst appendFragments.simps) simp
  qed
qed

lemma rewriteFragments_eq:
  "rewriteFragments lid data =
     take 6 (Split data semicolon @ replicate (9 - length (Split data semicolon)) [])
       @ [Itoa (sint lid), Proxy, []]"
proof -
  define fs where "fs = take 9 (Split data semicolon @ replicate (9 - length (Split data semicolon)) [])"
  have len: "length fs = 9" by (simp add: fs_def)
  then obtain a b c d e f g h i where fs: "fs = [a, b, c, d, e, f, g, h, i]"
    by (auto simp: length_Suc_conv eval_nat_numeral)
  have "take 6 fs = take 6 (Split data semicolon @ replicate (9 - length (Split data semicolon)) [])"
    by (simp add: fs_def)
  then show ?thesis
    unfolding rewriteFragments_def Let_def appendFragments_eq fs_def [symmetric]
    by (simp add: fs)
qed
subsection \<open>The pong payload\<close>

text \<open>
  Claim C8. \<^verbatim>\<open>PongData\<close> panics if and only if the payload is longer than 32767 bytes:
  a payload of exactly 32767 bytes is stored, one of 32768 bytes is rejected, and in
  general the payload is stored exactly when it has at most 32767 bytes.
\<close>

theorem PongData_panics_iff_longer_than_MaxInt16:
  "(PongData l data = Inl PanicPongDataTooLong) = (32767 < length data)
   \<and> isl (PongData l data) = (32767 < length data)
   \<and> (PongData l data = Inr (l\<lparr>pongData := data\<rparr>)) = (length data \<le> 32767)
   \<and> PongData l (replicate 32767 x) = Inr (l\<lparr>pongData := replicate 32767 x\<rparr>)
   \<and> PongData l (replicate 32768 x) = Inl PanicPongDataTooLong"
  by (simp add: PongData_def MaxInt16_def)

subsection \<open>The marker test of the hijack updater\<close>

text \<open>
  Claim C10, as amended. The updater tests \<^verbatim>\<open>string(data[:4]) == "MCPE"\<close> without a
  length guard. The slice expression panics exactly when the capacity of the payload
  slice is below 4. With at least 4 bytes of payload the test is total and compares the
  first 4 bytes of the payload. With a payload shorter than 4 bytes and a capacity of at
  least 4 it does not panic: it compares the payload followed by bytes of the backing
  array that lie beyond the payload's length.
\<close>

theorem hasMarker_panics_iff_capacity_below_4:
  "(hasMarker d = Inl PanicSliceBoundsOutOfRange) = (length (elems d) + length (spare d) < 4)
   \<and> isl (hasMarker d) = (length (elems d) + length (spare d) < 4)
   \<and> (4 \<le> length (elems d) \<longrightarrow> hasMarker d = Inr (take 4 (elems d) = MCPE))
   \<and> (length (elems d) < 4 \<and> 4 \<le> length (elems d) + length (spare d) \<longrightarrow>
        hasMarker d = Inr (elems d @ take (4 - length (elems d)) (spare d) = MCPE))"
  by (simp add: hasMarker_def slice_to_def)

theorem hasMarker_panics_iff_capacity_below_4_witness:
  "4 \<le> length (elems \<lparr>elems = [0x4D, 0x43, 0x50, 0x45, 0x3B], spare = []\<rparr>)
   \<and> hasMarker \<lparr>elems = [0x4D, 0x43, 0x50, 0x45, 0x3B], spare = []\<rparr> = Inr True
   \<and> length (elems \<lparr>elems = [0x41, 0x42], spare = [0, 0, 0]\<rparr>) < 4
   \<and> 4 \<le> length (elems \<lparr>elems = [0x41, 0x42], spare = [0, 0, 0]\<rparr>)
          + length (spare \<lparr>elems = [0x41, 0x42], spare = [0, 0, 0]\<rparr>)
   \<and> hasMarker \<lparr>elems = [0x41, 0x42], spare = [0, 0, 0]\<rparr> = Inr False
   \<and> hasMarker \<lparr>elems = [0x41, 0x42], spare = []\<rparr> = Inl PanicSliceBoundsOutOfRange"
  using hasMarker_panics_iff_capacity_below_4 [of "\<lparr>elems = [0x4D, 0x43, 0x50, 0x45, 0x3B], spare = []\<rparr>"]
    hasMarker_panics_iff_capacity_below_4 [of "\<lparr>elems = [0x41, 0x42], spare = [0, 0, 0]\<rparr>"]
    hasMarker_panics_iff_capacity_below_4 [of "\<lparr>elems = [0x41, 0x42], spare = []\<rparr>"]
  by (simp add: MCPE_def)

text \<open>
  The claim as stated fails: the payload \<^verbatim>\<open>"MC"\<close> is shorter than 4 bytes, and in a
  slice whose backing array goes on with \<^verbatim>\<open>"PE"\<close> the test does not panic; it answers
  that the marker is there, and the updater stores the rewritten payload.
\<close>

theorem short_payload_with_spare_capacity_does_not_panic:
  "length (elems \<lparr>elems = [0x4D, 0x43], spare = [0x50, 0x45]\<rparr>) < 4
   \<and> hasMarker \<lparr>elems = [0x4D, 0x43], spare = [0x50, 0x45]\<rparr> = Inr True
   \<and> hijackTick (Listen sampleEnv 7) (Inr \<lparr>elems = [0x4D, 0x43], spare = [0x50, 0x45]\<rparr>)
       = Inr ((Listen sampleEnv 7)\<lparr>pongData :=
           [0x4D, 0x43, 0x3B, 0x3B, 0x3B, 0x3B, 0x3B, 0x3B, 0x37, 0x3B, 0x50, 0x72, 0x6F, 0x78, 0x79, 0x3B]\<rparr>)"
proof -
  have lid: "listener_id (Listen sampleEnv 7) = 7"
    by (simp add: Listen_def)
  have joined: "Join (rewriteFragments 7 [0x4D, 0x43]) semicolon =
      [0x4D, 0x43, 0x3B, 0x3B, 0x3B, 0x3B, 0x3B, 0x3B, 0x37, 0x3B, 0x50, 0x72, 0x6F, 0x78, 0x79, 0x3B]"
    by code_simp
  have marker: "hasMarker \<lparr>elems = [0x4D, 0x43], spare = [0x50, 0x45]\<rparr> = Inr True"
    by (simp add: hasMarker_def slice_to_def MCPE_def)
  show ?thesis
    by (simp add: hijackTick_def marker lid joined PongData_def MaxInt16_def)
qed

subsection \<open>The hijack updater\<close>

lemma rewriteFragments_length: "length (rewriteFragments lid data) = 9"
  by (simp add: rewriteFragments_eq)

lemma rewriteFragments_no_semicolon:
  "list_all (\<lambda>f. semicolon \<notin> set f) (rewriteFragments lid data)"
proof -
  have "semicolon \<notin> set f"
    if "f \<in> set (take 6 (Split data semicolon
                    @ replicate (9 - length (Split data semicolon)) []))" for f
  proof -
    from that have "f \<in> set (Split data semicolon
                    @ replicate (9 - length (Split data semicolon)) [])"
      by (rule in_set_takeD)
    then have "f \<in> set (Split data semicolon) \<or> f = []"
      by auto
    then show ?thesis
      using Split_no_sep [of f data semicolon] by auto
  qed
  moreover have "semicolon \<notin> set Proxy"
    by (simp add: Proxy_def semicolon_def)
  ultimately show ?thesis
    unfolding rewriteFragments_eq list_all_iff
    using Itoa_no_semicolon [of "sint lid"] by auto
qed

lemma Split_Join_rewriteFragments:
  "Split (Join (rewriteFragments lid data) semicolon) semicolon = rewriteFragments lid data"
proof -
  have "rewriteFragments lid data \<noteq> []"
    using rewriteFragments_length [of lid data] by auto
  then show ?thesis
    by (rule Split_Join) (rule rewriteFragments_no_semicolon)
qed

lemma hasMarker_of_payload:
  "4 \<le> length (elems data) \<Longrightarrow> hasMarker data = Inr (take 4 (elems data) = MCPE)"
  by (simp add: hasMarker_def slice_to_def)

text \<open>
  Claim C9, as amended. For a fetched payload of at least 4 bytes: if it begins with
  \<^verbatim>\<open>"MCPE"\<close> and the rewritten payload has at most 32767 bytes, the stored payload is the
  rewritten one; it has exactly 9 fields between semicolons, its fields 7, 8 and 9
  (counted from 1) are the listener's id in decimal, \<^verbatim>\<open>"Proxy"\<close> and the empty field,
  and its first 6 fields are the first 6 fields of the fetched payload, padded with empty
  fields. If it does not begin with \<^verbatim>\<open>"MCPE"\<close> and has at most 32767 bytes it is stored
  as it is. A payload whose stored form would have more than 32767 bytes is not stored:
  \<^verbatim>\<open>PongData\<close> panics.
\<close>

theorem hijackTick_stores_rewritten_or_unmodified:
  "4 \<le> length (elems data) \<Longrightarrow>
   (take 4 (elems data) = MCPE
      \<and> length (Join (rewriteFragments (listener_id l) (elems data)) semicolon) \<le> 32767 \<longrightarrow>
      hijackTick l (Inr data)
        = Inr (l\<lparr>pongData := Join (rewriteFragments (listener_id l) (elems data)) semicolon\<rparr>)
      \<and> length (Split (Join (rewriteFragments (listener_id l) (elems data)) semicolon)
            semicolon) = 9
      \<and> Split (Join (rewriteFragments (listener_id l) (elems data)) semicolon) semicolon ! 6
          = Itoa (sint (listener_id l))
      \<and> Split (Join (rewriteFragments (listener_id l) (elems data)) semicolon) semicolon ! 7
          = Proxy
      \<and> Split (Join (rewriteFragments (listener_id l) (elems data)) semicolon) semicolon ! 8
          = []
      \<and> take 6 (Split (Join (rewriteFragments (listener_id l) (elems data)) semicolon)
            semicolon)
          = take 6 (Split (elems data) semicolon
              @ replicate (9 - length (Split (elems data) semicolon)) []))
   \<and> (take 4 (elems data) \<noteq> MCPE \<and> length (elems data) \<le> 32767 \<longrightarrow>
        hijackTick l (Inr data) = Inr (l\<lparr>pongData := elems data\<rparr>))
   \<and> (take 4 (elems data) = MCPE
      \<and> 32767 < length (Join (rewriteFragments (listener_id l) (elems data)) semicolon) \<longrightarrow>
        hijackTick l (Inr data) = Inl PanicPongDataTooLong)
   \<and> (take 4 (elems data) \<noteq> MCPE \<and> 32767 < length (elems data) \<longrightarrow>
        hijackTick l (Inr data) = Inl PanicPongDataTooLong)"
proof -
  assume len: "4 \<le> length (elems data)"
  define xs where "xs = take 6 (Split (elems data) semicolon
      @ replicate (9 - length (Split (elems data) semicolon)) [])"
  have six: "length xs = 6"
    by (simp add: xs_def)
  have fields: "rewriteFragments (listener_id l) (elems data)
      = xs @ [Itoa (sint (listener_id l)), Proxy, []]"
    unfolding xs_def by (rule rewriteFragments_eq)
  have n6: "(xs @ [Itoa (sint (listener_id l)), Proxy, []]) ! 6 = Itoa (sint (listener_id l))"
    using six by (simp add: nth_append)
  have n7: "(xs @ [Itoa (sint (listener_id l)), Proxy, []]) ! 7 = Proxy"
    using six by (simp add: nth_append)
  have n8: "(xs @ [Itoa (sint (listener_id l)), Proxy, []]) ! 8 = []"
    using six by (simp add: nth_append)
  have t6: "take 6 (xs @ [Itoa (sint (listener_id l)), Proxy, []]) = xs"
    using six by simp
  have marker: "hasMarker data = Inr (take 4 (elems data) = MCPE)"
    using len by (rule hasMarker_of_payload)
  show ?thesis
    unfolding Split_Join_rewriteFragments
    unfolding fields n6 n7 n8 t6
    unfolding xs_def [symmetric]
    using six by (simp add: hijackTick_def marker PongData_def MaxInt16_def fields)
qed

theorem hijackTick_stores_rewritten_or_unmodified_witness:
  "4 \<le> length (elems \<lparr>elems = [0x4D, 0x43, 0x50, 0x45, 0x3B, 0x41], spare = []\<rparr>)
   \<and> take 4 (elems \<lparr>elems = [0x4D, 0x43, 0x50, 0x45, 0x3B, 0x41], spare = []\<rparr>) = MCPE
   \<and> hijackTick (Listen sampleEnv 7)
        (Inr \<lparr>elems = [0x4D, 0x43, 0x50, 0x45, 0x3B, 0x41], spare = []\<rparr>)
       = Inr ((Listen sampleEnv 7)\<lparr>pongData :=
           [0x4D, 0x43, 0x50, 0x45, 0x3B, 0x41, 0x3B, 0x3B, 0x3B, 0x3B, 0x3B, 0x37, 0x3B,
            0x50, 0x72, 0x6F, 0x78, 0x79, 0x3B]\<rparr>)
   \<and> Split [0x4D, 0x43, 0x50, 0x45, 0x3B, 0x41, 0x3B, 0x3B, 0x3B, 0x3B, 0x3B, 0x37, 0x3B,
            0x50, 0x72, 0x6F, 0x78, 0x79, 0x3B] semicolon ! 6 = Itoa 7
   \<and> 4 \<le> length (elems \<lparr>elems = [0x41, 0x42, 0x43, 0x44, 0x45], spare = []\<rparr>)
   \<and> take 4 (elems \<lparr>elems = [0x41, 0x42, 0x43, 0x44, 0x45], spare = []\<rparr>) \<noteq> MCPE
   \<and> hijackTick (Listen sampleEnv 7)
        (Inr \<lparr>elems = [0x41, 0x42, 0x43, 0x44, 0x45], spare = []\<rparr>)
       = Inr ((Listen sampleEnv 7)\<lparr>pongData := [0x41, 0x42, 0x43, 0x44, 0x45]\<rparr>)
   \<and> 32767 < length (elems \<lparr>elems = 0x41 # replicate 32767 0x42, spare = []\<rparr>)
   \<and> hijackTick (Listen sampleEnv 7)
        (Inr \<lparr>elems = 0x41 # replicate 32767 0x42, spare = []\<rparr>)
       = Inl PanicPongDataTooLong"
proof -
  have lid: "listener_id (Listen sampleEnv 7) = 7"
    by (simp add: Listen_def)
  have joined: "Join (rewriteFragments 7 [0x4D, 0x43, 0x50, 0x45, 0x3B, 0x41]) semicolon =
      [0x4D, 0x43, 0x50, 0x45, 0x3B, 0x41, 0x3B, 0x3B, 0x3B, 0x3B, 0x3B, 0x37, 0x3B,
       0x50, 0x72, 0x6F, 0x78, 0x79, 0x3B]"
    by code_simp
  show ?thesis
    using hijackTick_stores_rewritten_or_unmodified
        [of "\<lparr>elems = [0x4D, 0x43, 0x50, 0x45, 0x3B, 0x41], spare = []\<rparr>" "Listen sampleEnv 7"]
      hijackTick_stores_rewritten_or_unmodified
        [of "\<lparr>elems = [0x41, 0x42, 0x43, 0x44, 0x45], spare = []\<rparr>" "Listen sampleEnv 7"]
      hijackTick_stores_rewritten_or_unmodified
        [of "\<lparr>elems = 0x41 # replicate 32767 0x42, spare = []\<rparr>" "Listen sampleEnv 7"]
    by (simp add: lid joined MCPE_def)
qed

text \<open>
  The claim as stated fails: a payload of 32768 zero bytes has no marker, and it is not
  stored: \<^verbatim>\<open>PongData\<close> panics.
\<close>

theorem oversized_payload_is_not_stored:
  "take 4 (elems \<lparr>elems = replicate 32768 0, spare = []\<rparr>) \<noteq> MCPE
   \<and> hijackTick (Listen sampleEnv 7) (Inr \<lparr>elems = replicate 32768 0, spare = []\<rparr>)
       = Inl PanicPongDataTooLong"
proof -
  have "replicate 4 (0 :: byte) = [0, 0, 0, 0]"
    by (simp add: eval_nat_numeral)
  then have nomarker: "take 4 (replicate 32768 (0 :: byte)) \<noteq> MCPE"
    by (simp add: MCPE_def)
  then show ?thesis
    by (simp add: hijackTick_def hasMarker_def slice_to_def PongData_def MaxInt16_def)
qed

subsection \<open>Dispatch of datagrams\<close>

lemma sampleEnv_constants:
  "MinecraftProtocol sampleEnv = 8"
  "bitFlagValid sampleEnv = 0x80"
  "magic sampleEnv = sampleMagic"
  "idUnconnectedPing sampleEnv = 0x01"
  "idUnconnectedPong sampleEnv = 0x1C"
  "idOpenConnectionRequest1 sampleEnv = 0x05"
  "idOpenConnectionReply1 sampleEnv = 0x06"
  "idOpenConnectionRequest2 sampleEnv = 0x07"
  "idOpenConnectionReply2 sampleEnv = 0x08"
  "idIncompatibleProtocolVersion sampleEnv = 0x19"
  by (simp_all add: sampleEnv_def)

lemma Listen_fields:
  "ErrorLog (Listen env r) = []"
  "Protocol (Listen env r) = MinecraftProtocol env"
  "written (Listen env r) = []"
  "socket_closed (Listen env r) = False"
  "incoming (Listen env r) = []"
  "incoming_closed (Listen env r) = False"
  "connections (Listen env r) = []"
  "conns (Listen env r) = []"
  "watchers (Listen env r) = []"
  "closeCtx_done (Listen env r) = False"
  "pongData (Listen env r) = []"
  "protocol (Listen env r) = MinecraftProtocol env"
  by (simp_all add: Listen_def)

lemma sampleEnv_network:
  "writeToFails sampleEnv b a = False"
  "receiveFails sampleEnv conn b = False"
  "closeFails sampleEnv conn = False"
  "socketCloseFails sampleEnv = False"
  by (simp_all add: sampleEnv_def)

text \<open>
  Claim C6. A datagram from an address that has an entry in the session table is given
  as it is to \<^verbatim>\<open>receive\<close> of that session, whatever its bytes are: \<^verbatim>\<open>handle\<close> is the call
  of \<^verbatim>\<open>receive\<close> and nothing else. No reply is written, the table and the channel stay
  as they are, and the session has logged the whole datagram.
\<close>

theorem handle_forwards_to_session:
  "Load (connections l) a = Some p \<Longrightarrow>
   handle env l b a = (case receive env l p b of (err, l') \<Rightarrow> (Returned err, l'))
   \<and> handle env l b a =
       (Returned (if receiveFails env (conns l ! p) b then Some ErrConnReceive else None),
        l\<lparr>conns := (conns l)[p := (conns l ! p)\<lparr>conn_received :=
             conn_received (conns l ! p) @ [b]\<rparr>]\<rparr>)
   \<and> written (snd (handle env l b a)) = written l
   \<and> connections (snd (handle env l b a)) = connections l
   \<and> incoming (snd (handle env l b a)) = incoming l
   \<and> (p < length (conns l) \<longrightarrow>
        conn_received (conns (snd (handle env l b a)) ! p)
          = conn_received (conns l ! p) @ [b])"
  by (simp add: handle_def receive_def Let_def)

theorem handle_forwards_to_session_witness:
  "Load (connections ((Listen sampleEnv 7)
       \<lparr>connections := [(''10.0.0.2:19132'', 0)],
        conns := [newConn ''10.0.0.2:19132'' 1492 42]\<rparr>)) ''10.0.0.2:19132'' = Some 0
   \<and> handle sampleEnv ((Listen sampleEnv 7)
       \<lparr>connections := [(''10.0.0.2:19132'', 0)],
        conns := [newConn ''10.0.0.2:19132'' 1492 42]\<rparr>) [0x01, 0x02, 0x03] ''10.0.0.2:19132''
      = (Returned None, (Listen sampleEnv 7)
       \<lparr>connections := [(''10.0.0.2:19132'', 0)],
        conns := [(newConn ''10.0.0.2:19132'' 1492 42)\<lparr>conn_received := [[0x01, 0x02, 0x03]]\<rparr>]\<rparr>)"
proof -
  let ?l = "(Listen sampleEnv 7)
       \<lparr>connections := [(''10.0.0.2:19132'', 0)],
        conns := [newConn ''10.0.0.2:19132'' 1492 42]\<rparr>"
  have entry: "Load (connections ?l) ''10.0.0.2:19132'' = Some 0"
    by (simp add: Load_def)
  have "handle sampleEnv ?l [0x01, 0x02, 0x03] ''10.0.0.2:19132'' =
       (Returned (if receiveFails sampleEnv (conns ?l ! 0) [0x01, 0x02, 0x03]
                  then Some ErrConnReceive else None),
        ?l\<lparr>conns := (conns ?l)[0 := (conns ?l ! 0)\<lparr>conn_received :=
             conn_received (conns ?l ! 0) @ [[0x01, 0x02, 0x03]]\<rparr>]\<rparr>)"
    using handle_forwards_to_session [OF entry, of sampleEnv "[0x01, 0x02, 0x03]"]
    by (rule conjunct1 [OF conjunct2])
  then show ?thesis
    using entry by (simp add: sampleEnv_network newConn_def)
qed

text \<open>
  Claim C7. For a datagram from an address without a session that starts with the id of
  an unconnected ping and whose rest decodes as a ping, the listener writes one datagram
  to the sender: the pong id, the encoding of the pong struct whose timestamp is the
  ping's and whose GUID is the listener's id, then the 2 bytes of the payload length
  exactly when \<^verbatim>\<open>listener.protocol == MinecraftProtocol\<close>, then the pong payload.
\<close>

theorem handle_ping_replies_pong:
  assumes "Load (connections l) a = None"
    and "readUnconnectedPing env body = Some ping"
    and "writeUnconnectedPong env
           \<lparr>pong_Magic = magic env, pong_ServerGUID = listener_id l,
            pong_SendTimestamp = ping_SendTimestamp ping\<rparr> = Some enc"
    and "\<not> socket_closed l"
    and "\<not> writeToFails env
           (idUnconnectedPong env # enc
              @ (if protocol l = MinecraftProtocol env
                 then putInt16 (word_of_nat (length (pongData l))) else [])
              @ pongData l) a"
  shows "handle env l (idUnconnectedPing env # body) a =
           (Returned None,
            l\<lparr>written := written l @
               [(idUnconnectedPong env # enc
                   @ (if protocol l = MinecraftProtocol env
                      then putInt16 (word_of_nat (length (pongData l))) else [])
                   @ pongData l, a)]\<rparr>)
         \<and> length (putInt16 (word_of_nat (length (pongData l)))) = 2"
  using assms
  by (cases "protocol l = MinecraftProtocol env")
    (simp_all add: handle_def handleUnconnectedPing_def WriteTo_def putInt16_def Let_def)

theorem handle_ping_replies_pong_witness:
  "Load (connections (Listen sampleEnv 7)) ''10.0.0.2:19132'' = None
   \<and> readUnconnectedPing sampleEnv [0, 0, 0, 0, 0, 0, 0x30, 0x39]
       = Some \<lparr>ping_SendTimestamp = 12345\<rparr>
   \<and> \<not> socket_closed (Listen sampleEnv 7)
   \<and> protocol (Listen sampleEnv 7) = MinecraftProtocol sampleEnv
   \<and> handle sampleEnv (Listen sampleEnv 7) [0x01, 0, 0, 0, 0, 0, 0, 0x30, 0x39]
        ''10.0.0.2:19132''
      = (Returned None,
         (Listen sampleEnv 7)\<lparr>written :=
           [(0x1C # putInt64 7 @ putInt64 12345 @ [0, 0], ''10.0.0.2:19132'')]\<rparr>)"
proof -
  let ?l = "Listen sampleEnv 7"
  have noentry: "Load (connections ?l) ''10.0.0.2:19132'' = None"
    by (simp add: Load_def Listen_def)
  have ts: "getInt64 [0, 0, 0, 0, 0, 0, 0x30, 0x39] = 12345"
    by (simp add: getInt64_def)
  have ping: "readUnconnectedPing sampleEnv [0, 0, 0, 0, 0, 0, 0x30, 0x39]
      = Some \<lparr>ping_SendTimestamp = 12345\<rparr>"
    by (simp add: sampleEnv_def ts)
  have pong: "writeUnconnectedPong sampleEnv
      \<lparr>pong_Magic = magic sampleEnv, pong_ServerGUID = listener_id ?l,
       pong_SendTimestamp = ping_SendTimestamp \<lparr>ping_SendTimestamp = 12345\<rparr>\<rparr>
      = Some (putInt64 7 @ putInt64 12345)"
    by (simp add: sampleEnv_def Listen_def)
  have opened: "\<not> socket_closed ?l"
    by (simp add: Listen_def)
  have mode: "protocol ?l = MinecraftProtocol sampleEnv"
    by (simp add: Listen_def)
  have nopayload: "pongData ?l = []"
    by (simp add: Listen_def)
  have sent: "\<not> writeToFails sampleEnv
      (idUnconnectedPong sampleEnv # (putInt64 7 @ putInt64 12345)
         @ (if protocol ?l = MinecraftProtocol sampleEnv
            then putInt16 (word_of_nat (length (pongData ?l))) else [])
         @ pongData ?l) ''10.0.0.2:19132''"
    by (simp add: sampleEnv_network)
  have zero: "putInt16 0 = [0, 0]"
    by (simp add: putInt16_def)
  show ?thesis
    using handle_ping_replies_pong [OF noentry ping pong opened sent]
    by (simp add: Load_def ping sampleEnv_constants zero Listen_fields)
qed

subsection \<open>OpenConnectionRequest1\<close>

lemma sint_mtu_no_wrap:
  "n \<le> 32739 \<Longrightarrow> sint (word_of_nat n + 28 :: int16) = int n + 28"
proof -
  assume n: "n \<le> 32739"
  have sum: "word_of_nat n + (28 :: int16) = word_of_int (int n + 28)"
    by simp
  have signed: "sint (word_of_int k :: int16) = signed_take_bit 15 k" for k
    by (simp add: sint_sbintrunc')
  have small: "signed_take_bit 15 (int n + 28) = int n + 28"
    using n by (simp add: signed_take_bit_int_eq_self)
  show ?thesis
    unfolding sum signed small by (rule refl)
qed

text \<open>
  Claim C1, as amended. For a datagram of at most 1500 bytes (the size of the read
  buffer of \<^verbatim>\<open>listen\<close>) from an address without a session, that starts with the id of
  OpenConnectionRequest1 and whose rest decodes to a request with the protocol version
  \<^verbatim>\<open>listener.protocol\<close>, the listener writes one datagram to the sender: the id of
  OpenConnectionReply1 and the encoding of the reply struct with the listener's id and
  with an MTU equal to the length of the whole datagram plus 28. The length of the whole
  datagram is the length of the bytes after the packet id plus 1.
\<close>

theorem handle_request1_replies_mtu:
  assumes "Load (connections l) a = None"
    and "idOpenConnectionRequest1 env \<noteq> idUnconnectedPing env"
    and "length (idOpenConnectionRequest1 env # body) \<le> 1500"
    and "readOpenConnectionRequest1 env body = Some packet"
    and "req1_Protocol packet = protocol l"
    and "writeOpenConnectionReply1 env
           \<lparr>reply1_Magic = magic env, reply1_ServerGUID = listener_id l,
            reply1_MTUSize = mtu\<rparr> = Some enc"
    and "mtu = word_of_nat (length (idOpenConnectionRequest1 env # body)) + 28"
    and "\<not> socket_closed l"
    and "\<not> writeToFails env (idOpenConnectionReply1 env # enc) a"
  shows "handle env l (idOpenConnectionRequest1 env # body) a =
           (Returned None,
            l\<lparr>written := written l @ [(idOpenConnectionReply1 env # enc, a)]\<rparr>)
         \<and> sint mtu = int (length (idOpenConnectionRequest1 env # body)) + 28
         \<and> sint mtu = int (length body) + 1 + 28"
proof -
  have "length (idOpenConnectionRequest1 env # body) \<le> 32739"
    using assms(3) by simp
  then have "sint mtu = int (length (idOpenConnectionRequest1 env # body)) + 28"
    unfolding assms(7) by (rule sint_mtu_no_wrap)
  moreover have "handle env l (idOpenConnectionRequest1 env # body) a =
           (Returned None,
            l\<lparr>written := written l @ [(idOpenConnectionReply1 env # enc, a)]\<rparr>)"
    using assms
    by (simp add: handle_def handleOpenConnectionRequest1_def WriteTo_def Let_def)
  ultimately show ?thesis by simp
qed

lemma read_sampleRequest1:
  "readOpenConnectionRequest1 sampleEnv (sampleMagic @ [v]) = Some \<lparr>req1_Protocol = v\<rparr>"
  by (simp add: sampleEnv_def sampleMagic_def)

theorem handle_request1_replies_mtu_witness:
  "Load (connections (Listen sampleEnv 7)) ''10.0.0.2:19132'' = None
   \<and> length (idOpenConnectionRequest1 sampleEnv # sampleMagic @ [8]) = 18
   \<and> readOpenConnectionRequest1 sampleEnv (sampleMagic @ [8]) = Some \<lparr>req1_Protocol = 8\<rparr>
   \<and> req1_Protocol \<lparr>req1_Protocol = 8\<rparr> = protocol (Listen sampleEnv 7)
   \<and> handle sampleEnv (Listen sampleEnv 7) (0x05 # sampleMagic @ [8]) ''10.0.0.2:19132''
      = (Returned None,
         (Listen sampleEnv 7)\<lparr>written :=
           [(0x06 # sampleMagic @ putInt64 7 @ [0] @ putInt16 46, ''10.0.0.2:19132'')]\<rparr>)
   \<and> sint (46 :: int16) = 18 + 28"
proof -
  let ?l = "Listen sampleEnv 7"
  have noentry: "Load (connections ?l) ''10.0.0.2:19132'' = None"
    by (simp add: Load_def Listen_fields)
  have ids: "idOpenConnectionRequest1 sampleEnv \<noteq> idUnconnectedPing sampleEnv"
    by (simp add: sampleEnv_constants)
  have len: "length (idOpenConnectionRequest1 sampleEnv # sampleMagic @ [8]) \<le> 1500"
    by (simp add: sampleMagic_def)
  have version: "req1_Protocol \<lparr>req1_Protocol = 8\<rparr> = protocol ?l"
    by (simp add: Listen_fields sampleEnv_constants)
  have reply: "writeOpenConnectionReply1 sampleEnv
      \<lparr>reply1_Magic = magic sampleEnv, reply1_ServerGUID = listener_id ?l,
       reply1_MTUSize = 46\<rparr> = Some (sampleMagic @ putInt64 7 @ [0] @ putInt16 46)"
    by (simp add: sampleEnv_def Listen_def)
  have mtu: "(46 :: int16) = word_of_nat (length (idOpenConnectionRequest1 sampleEnv # sampleMagic @ [8])) + 28"
    by (simp add: sampleMagic_def)
  have opened: "\<not> socket_closed ?l"
    by (simp add: Listen_fields)
  have sent: "\<not> writeToFails sampleEnv
      (idOpenConnectionReply1 sampleEnv # sampleMagic @ putInt64 7 @ [0] @ putInt16 46)
      ''10.0.0.2:19132''"
    by (simp add: sampleEnv_network)
  show ?thesis
    using handle_request1_replies_mtu
      [OF noentry ids len read_sampleRequest1 version reply mtu opened sent]
    by (simp add: Load_def read_sampleRequest1 sampleEnv_constants Listen_fields)
qed

text \<open>
  The claim as stated fails: the request of 18 bytes (id, magic, version) is answered
  with the MTU 46, which is 18 + 28; the reply that advertises 18 + 1 + 28 = 47 is
  another datagram.
\<close>

theorem request1_mtu_is_not_length_plus_29:
  "length (0x05 # sampleMagic @ [8]) = 18
   \<and> req1_Protocol (the (readOpenConnectionRequest1 sampleEnv (sampleMagic @ [8])))
       = protocol (Listen sampleEnv 7)
   \<and> written (snd (handle sampleEnv (Listen sampleEnv 7) (0x05 # sampleMagic @ [8])
        ''10.0.0.2:19132''))
      = [(idOpenConnectionReply1 sampleEnv
            # the (writeOpenConnectionReply1 sampleEnv
                \<lparr>reply1_Magic = magic sampleEnv,
                 reply1_ServerGUID = listener_id (Listen sampleEnv 7),
                 reply1_MTUSize = 46\<rparr>), ''10.0.0.2:19132'')]
   \<and> written (snd (handle sampleEnv (Listen sampleEnv 7) (0x05 # sampleMagic @ [8])
        ''10.0.0.2:19132''))
      \<noteq> [(idOpenConnectionReply1 sampleEnv
            # the (writeOpenConnectionReply1 sampleEnv
                \<lparr>reply1_Magic = magic sampleEnv,
                 reply1_ServerGUID = listener_id (Listen sampleEnv 7),
                 reply1_MTUSize = 18 + 1 + 28\<rparr>), ''10.0.0.2:19132'')]"
proof -
  have enc: "writeOpenConnectionReply1 sampleEnv r
      = Some (reply1_Magic r @ putInt64 (reply1_ServerGUID r) @ [0] @ putInt16 (reply1_MTUSize r))"
    for r
    by (simp add: sampleEnv_def)
  have differ: "putInt16 46 \<noteq> putInt16 47"
    by (simp add: putInt16_def)
  have len: "length sampleMagic = 16"
    by (simp add: sampleMagic_def)
  show ?thesis
    using differ
    by (simp add: handle_def handleOpenConnectionRequest1_def WriteTo_def Let_def Load_def
        read_sampleRequest1 enc sampleEnv_constants sampleEnv_network Listen_fields len)
qed

text \<open>
  The handlers never read the exported field \<^verbatim>\<open>Protocol\<close>: \<^verbatim>\<open>handle\<close> does the same for
  every value the application stores there.
\<close>

lemma WriteTo_ignores_Protocol:
  "WriteTo env (l\<lparr>Protocol := v\<rparr>) b a =
     (case WriteTo env l b a of (ok, l') \<Rightarrow> (ok, l'\<lparr>Protocol := v\<rparr>))"
  by (simp add: WriteTo_def)

lemma handleUnconnectedPing_ignores_Protocol:
  "handleUnconnectedPing env (l\<lparr>Protocol := v\<rparr>) b a =
     (case handleUnconnectedPing env l b a of (result, l') \<Rightarrow> (result, l'\<lparr>Protocol := v\<rparr>))"
  unfolding handleUnconnectedPing_def Let_def WriteTo_ignores_Protocol
  by (simp split: option.splits prod.splits bool.splits)

lemma handleOpenConnectionRequest1_ignores_Protocol:
  "handleOpenConnectionRequest1 env (l\<lparr>Protocol := v\<rparr>) b a =
     (case handleOpenConnectionRequest1 env l b a of
        (result, l') \<Rightarrow> (result, l'\<lparr>Protocol := v\<rparr>))"
  unfolding handleOpenConnectionRequest1_def Let_def WriteTo_ignores_Protocol
  by (simp split: option.splits prod.splits bool.splits)

lemma handleOpenConnectionRequest2_ignores_Protocol:
  "handleOpenConnectionRequest2 env (l\<lparr>Protocol := v\<rparr>) b a =
     (case handleOpenConnectionRequest2 env l b a of
        (result, l') \<Rightarrow> (result, l'\<lparr>Protocol := v\<rparr>))"
  unfolding handleOpenConnectionRequest2_def Let_def WriteTo_ignores_Protocol
  by (simp split: option.splits prod.splits bool.splits)

lemma handle_ignores_Protocol:
  "handle env (l\<lparr>Protocol := v\<rparr>) b a =
     (case handle env l b a of (result, l') \<Rightarrow> (result, l'\<lparr>Protocol := v\<rparr>))"
  unfolding handle_def handleUnconnectedPing_ignores_Protocol
    handleOpenConnectionRequest1_ignores_Protocol handleOpenConnectionRequest2_ignores_Protocol
  by (simp add: receive_def Let_def split: option.splits list.splits)

lemma sampleEnv_codecs:
  "writeOpenConnectionReply1 sampleEnv r1
     = Some (reply1_Magic r1 @ putInt64 (reply1_ServerGUID r1) @ [0]
         @ putInt16 (reply1_MTUSize r1))"
  "writeIncompatibleProtocolVersion sampleEnv r2
     = Some (ipv_Magic r2 @ putInt64 (ipv_ServerGUID r2) @ [ipv_ServerProtocol r2])"
  "writeUnconnectedPong sampleEnv r3
     = Some (putInt64 (pong_ServerGUID r3) @ putInt64 (pong_SendTimestamp r3))"
  "marshalOpenConnectionReply2 sampleEnv r4
     = Some (reply2_Magic r4 @ putInt64 (reply2_ServerGUID r4)
         @ addrBytes (reply2_ClientAddress r4) @ putInt16 (reply2_MTUSize r4) @ [0])"
  by (simp_all add: sampleEnv_def)

lemma sampleMagic_length: "length sampleMagic = 16"
  by (simp add: sampleMagic_def)

text \<open>
  Claim C3, on the code. The application sets \<^verbatim>\<open>Protocol\<close> to 9 on a listener made by
  \<^verbatim>\<open>Listen\<close> (whose \<^verbatim>\<open>MinecraftProtocol\<close> is 8 here). A request for the configured
  version 9 is rejected with IncompatibleProtocolVersion, which names the version 8;
  a request for the version 8, which differs from the configured one, is answered with
  OpenConnectionReply1.
\<close>

theorem configured_Protocol_is_not_the_accepted_version:
  "Protocol ((Listen sampleEnv 7)\<lparr>Protocol := 9\<rparr>) = 9
   \<and> handle sampleEnv ((Listen sampleEnv 7)\<lparr>Protocol := 9\<rparr>) (sampleRequest1 9) sampleAddr
      = (Returned (Some (ErrIncompatibleProtocolVersion 9 8)),
         (Listen sampleEnv 7)\<lparr>Protocol := 9,
           written := [(0x19 # sampleMagic @ putInt64 7 @ [8], sampleAddr)]\<rparr>)
   \<and> handle sampleEnv ((Listen sampleEnv 7)\<lparr>Protocol := 9\<rparr>) (sampleRequest1 8) sampleAddr
      = (Returned None,
         (Listen sampleEnv 7)\<lparr>Protocol := 9,
           written := [(0x06 # sampleMagic @ putInt64 7 @ [0] @ putInt16 46, sampleAddr)]\<rparr>)"
proof -
  have lid: "listener_id ((Listen sampleEnv 7)\<lparr>Protocol := 9\<rparr>) = 7"
    by (simp add: Listen_def)
  show ?thesis
    by (simp add: handle_def handleOpenConnectionRequest1_def WriteTo_def Let_def Load_def
        sampleRequest1_def read_sampleRequest1 sampleEnv_codecs sampleEnv_constants
        sampleEnv_network Listen_fields sampleMagic_length lid)
qed

subsection \<open>The handshake and Accept\<close>

lemma Delete_absent: "Load m k = None \<Longrightarrow> Delete m k = m"
proof -
  assume "Load m k = None"
  then have "k \<notin> fst ` set m"
    by (simp add: Load_def map_of_eq_None_iff)
  then have "\<And>e. e \<in> set m \<Longrightarrow> fst e \<noteq> k"
    by auto
  then show ?thesis
    unfolding Delete_def by (simp add: filter_id_conv)
qed

lemma Store_absent: "Load m k = None \<Longrightarrow> Store m k v = m @ [(k, v)]"
  by (simp add: Store_def Delete_absent)

lemma Load_Delete: "Load (Delete m k) k = None"
  by (auto simp: Load_def Delete_def map_of_eq_None_iff)

lemma Load_Store: "Load (Store m k v) k = Some v"
  using Load_Delete [of m k] by (simp add: Load_def Store_def map_add_def)

lemma entries_of_absent: "Load m k = None \<Longrightarrow> filter (\<lambda>e. fst e = k) m = []"
proof -
  assume "Load m k = None"
  then have "k \<notin> fst ` set m"
    by (simp add: Load_def map_of_eq_None_iff)
  then have "\<And>e. e \<in> set m \<Longrightarrow> fst e \<noteq> k"
    by auto
  then show ?thesis
    by (simp add: filter_empty_conv)
qed

lemma handle_request1_state:
  assumes "Load (connections l) a = None"
    and "idOpenConnectionRequest1 env \<noteq> idUnconnectedPing env"
    and "readOpenConnectionRequest1 env body = Some packet"
    and "req1_Protocol packet = protocol l"
    and "writeOpenConnectionReply1 env
           \<lparr>reply1_Magic = magic env, reply1_ServerGUID = listener_id l,
            reply1_MTUSize = word_of_nat (length body + 1) + 28\<rparr> = Some enc"
    and "\<not> socket_closed l"
    and "\<not> writeToFails env (idOpenConnectionReply1 env # enc) a"
  shows "handle env l (idOpenConnectionRequest1 env # body) a =
           (Returned None,
            l\<lparr>written := written l @ [(idOpenConnectionReply1 env # enc, a)]\<rparr>)"
  using assms
  by (simp add: handle_def handleOpenConnectionRequest1_def WriteTo_def Let_def)

lemma handle_request2_state:
  assumes "Load (connections l) a = None"
    and "idOpenConnectionRequest2 env \<noteq> idUnconnectedPing env"
    and "idOpenConnectionRequest2 env \<noteq> idOpenConnectionRequest1 env"
    and "unmarshalOpenConnectionRequest2 env body = Some packet"
    and "marshalOpenConnectionReply2 env
           \<lparr>reply2_Magic = magic env, reply2_ServerGUID = listener_id l,
            reply2_ClientAddress = a, reply2_MTUSize = req2_MTUSize packet\<rparr> = Some enc"
    and "\<not> socket_closed l"
    and "\<not> writeToFails env (idOpenConnectionReply2 env # enc) a"
    and "\<not> incoming_closed l"
    and "length (incoming l) < incomingCap"
  shows "handle env l (idOpenConnectionRequest2 env # body) a =
           (Returned None,
            l\<lparr>written := written l @ [(idOpenConnectionReply2 env # enc, a)],
              conns := conns l @ [newConn a (req2_MTUSize packet) (req2_ClientGUID packet)],
              connections := connections l @ [(a, length (conns l))],
              incoming := incoming l @ [length (conns l)]\<rparr>)"
  using assms
  by (simp add: handle_def handleOpenConnectionRequest2_def WriteTo_def Let_def Store_absent)

text \<open>
  Claim C5, as amended. A sender without a session sends OpenConnectionRequest1 with the accepted
  version and then OpenConnectionRequest2, both decode, and both replies can be written;
  the channel \<^verbatim>\<open>incoming\<close> is open and not full. Then both calls of \<^verbatim>\<open>handle\<close> return
  \<^verbatim>\<open>nil\<close>, the two replies are the datagrams written, the first request leaves the table
  as it is, and after the second the table has one more entry, the only one under the
  sender's address string, which points to the one new session; that one pointer is what
  was added to the channel. What \<^verbatim>\<open>Accept\<close> delivers depends on the \<^verbatim>\<open>select\<close>: with
  nothing else in the channel, when the session signals that its handshake is complete
  \<^verbatim>\<open>Accept\<close> returns this session, and a second \<^verbatim>\<open>Accept\<close> finds the channel empty and
  gets no further value; when the 10 seconds pass first, \<^verbatim>\<open>Accept\<close> closes the session
  and delivers no value for this handshake; when the listener is closed first,
  \<^verbatim>\<open>Accept\<close> returns the error of the closed listener.
\<close>

theorem handshake_registers_one_session:
  assumes "Load (connections l) a = None"
    and "idOpenConnectionRequest1 env \<noteq> idUnconnectedPing env"
    and "idOpenConnectionRequest2 env \<noteq> idUnconnectedPing env"
    and "idOpenConnectionRequest2 env \<noteq> idOpenConnectionRequest1 env"
    and "\<not> socket_closed l"
    and "\<not> incoming_closed l"
    and "length (incoming l) < incomingCap"
    and "readOpenConnectionRequest1 env body1 = Some packet1"
    and "req1_Protocol packet1 = protocol l"
    and "writeOpenConnectionReply1 env
           \<lparr>reply1_Magic = magic env, reply1_ServerGUID = listener_id l,
            reply1_MTUSize = word_of_nat (length body1 + 1) + 28\<rparr> = Some enc1"
    and "\<not> writeToFails env (idOpenConnectionReply1 env # enc1) a"
    and "unmarshalOpenConnectionRequest2 env body2 = Some packet2"
    and "marshalOpenConnectionReply2 env
           \<lparr>reply2_Magic = magic env, reply2_ServerGUID = listener_id l,
            reply2_ClientAddress = a, reply2_MTUSize = req2_MTUSize packet2\<rparr> = Some enc2"
    and "\<not> writeToFails env (idOpenConnectionReply2 env # enc2) a"
    and "l1 = snd (handle env l (idOpenConnectionRequest1 env # body1) a)"
    and "l2 = snd (handle env l1 (idOpenConnectionRequest2 env # body2) a)"
  shows "fst (handle env l (idOpenConnectionRequest1 env # body1) a) = Returned None
       \<and> fst (handle env l1 (idOpenConnectionRequest2 env # body2) a) = Returned None
       \<and> written l2 = written l @ [(idOpenConnectionReply1 env # enc1, a),
                                     (idOpenConnectionReply2 env # enc2, a)]
       \<and> connections l1 = connections l
       \<and> connections l2 = connections l @ [(a, length (conns l))]
       \<and> length (filter (\<lambda>e. fst e = a) (connections l2)) = 1
       \<and> Load (connections l2) a = Some (length (conns l))
       \<and> conns l2 = conns l @ [newConn a (req2_MTUSize packet2) (req2_ClientGUID packet2)]
       \<and> incoming l2 = incoming l @ [length (conns l)]
       \<and> (incoming l = [] \<and> sel (length (conns l)) = CompletingSequence_Done \<longrightarrow>
            fst (Accept sel env l2) = Accepted (length (conns l))
            \<and> incoming (snd (Accept sel env l2)) = []
            \<and> fst (Accept sel env (snd (Accept sel env l2))) = AcceptBlocked)
       \<and> (incoming l = [] \<and> sel (length (conns l)) = Time_After \<longrightarrow>
            fst (Accept sel env l2) = AcceptBlocked
            \<and> incoming (snd (Accept sel env l2)) = []
            \<and> conn_closed (conns (snd (Accept sel env l2)) ! length (conns l)))
       \<and> (incoming l = [] \<and> sel (length (conns l)) = CloseCtx_Done \<longrightarrow>
            fst (Accept sel env l2) = AcceptError ErrAcceptListenerClosed
            \<and> incoming (snd (Accept sel env l2)) = [])"
proof -
  let ?reply1 = "(idOpenConnectionReply1 env # enc1, a)"
  let ?reply2 = "(idOpenConnectionReply2 env # enc2, a)"
  let ?conn = "newConn a (req2_MTUSize packet2) (req2_ClientGUID packet2)"
  let ?p = "length (conns l)"
  let ?l1 = "l\<lparr>written := written l @ [?reply1]\<rparr>"
  have step1: "handle env l (idOpenConnectionRequest1 env # body1) a = (Returned None, ?l1)"
    using assms(1,2,8,9,10,5,11) by (rule handle_request1_state)
  then have l1: "l1 = ?l1"
    using assms(15) by simp
  have "Load (connections ?l1) a = None"
    using assms(1) by simp
  moreover have "marshalOpenConnectionReply2 env
      \<lparr>reply2_Magic = magic env, reply2_ServerGUID = listener_id ?l1,
       reply2_ClientAddress = a, reply2_MTUSize = req2_MTUSize packet2\<rparr> = Some enc2"
    using assms(13) by simp
  moreover have "\<not> socket_closed ?l1" "\<not> incoming_closed ?l1"
      "length (incoming ?l1) < incomingCap"
    using assms(5,6,7) by simp_all
  ultimately have step2: "handle env ?l1 (idOpenConnectionRequest2 env # body2) a =
      (Returned None,
       ?l1\<lparr>written := written ?l1 @ [?reply2],
            conns := conns ?l1 @ [?conn],
            connections := connections ?l1 @ [(a, length (conns ?l1))],
            incoming := incoming ?l1 @ [length (conns ?l1)]\<rparr>)"
    using assms(3,4,12,14) by (intro handle_request2_state) simp_all
  then have l2: "l2 = l\<lparr>written := written l @ [?reply1, ?reply2],
      conns := conns l @ [?conn], connections := connections l @ [(a, ?p)],
      incoming := incoming l @ [?p]\<rparr>"
    using assms(16) l1 by simp
  have one: "length (filter (\<lambda>e. fst e = a) (connections l2)) = 1"
    using entries_of_absent [OF assms(1)] by (simp add: l2)
  have found: "Load (connections l2) a = Some ?p"
    using Load_Store [of "connections l" a ?p] Store_absent [OF assms(1), of ?p]
    by (simp add: l2)
  have accepted: "fst (Accept sel env l2) = Accepted ?p
      \<and> incoming (snd (Accept sel env l2)) = []
      \<and> fst (Accept sel env (snd (Accept sel env l2))) = AcceptBlocked"
    if "incoming l = []" and "sel ?p = CompletingSequence_Done"
    using that assms(6) by (simp add: Accept_def l2)
  have timed_out: "fst (Accept sel env l2) = AcceptBlocked
      \<and> incoming (snd (Accept sel env l2)) = []
      \<and> conn_closed (conns (snd (Accept sel env l2)) ! ?p)"
    if "incoming l = []" and "sel ?p = Time_After"
    using that assms(6) by (simp add: Accept_def l2 connClose_def Let_def)
  have closing: "fst (Accept sel env l2) = AcceptError ErrAcceptListenerClosed
      \<and> incoming (snd (Accept sel env l2)) = []"
    if "incoming l = []" and "sel ?p = CloseCtx_Done"
    using that by (simp add: Accept_def l2)
  show ?thesis
    using step1 step2 l1 one found accepted timed_out closing by (simp add: l2)
qed

lemma unmarshal_sampleRequest2:
  "unmarshalOpenConnectionRequest2 sampleEnv (tl sampleRequest2)
     = Some \<lparr>req2_MTUSize = 1492, req2_ClientGUID = 42\<rparr>"
proof -
  have mtu: "getInt16 [0x05, 0xD4] = 1492"
    by (simp add: getInt16_def)
  have guid: "getInt64 [0, 0, 0, 0, 0, 0, 0, 0x2A] = 42"
    by (simp add: getInt64_def)
  show ?thesis
    by (simp add: sampleEnv_def sampleRequest2_def sampleMagic_def mtu guid)
qed

theorem handshake_registers_one_session_witness:
  "(let l1 = snd (handle sampleEnv (Listen sampleEnv 7) (sampleRequest1 8) sampleAddr);
        l2 = snd (handle sampleEnv l1 sampleRequest2 sampleAddr)
    in Load (connections (Listen sampleEnv 7)) sampleAddr = None
       \<and> fst (handle sampleEnv (Listen sampleEnv 7) (sampleRequest1 8) sampleAddr)
           = Returned None
       \<and> fst (handle sampleEnv l1 sampleRequest2 sampleAddr) = Returned None
       \<and> connections l1 = []
       \<and> connections l2 = [(sampleAddr, 0)]
       \<and> conns l2 = [newConn sampleAddr 1492 42]
       \<and> incoming l2 = [0]
       \<and> fst (Accept (\<lambda>p. CompletingSequence_Done) sampleEnv l2) = Accepted 0
       \<and> fst (Accept (\<lambda>p. CompletingSequence_Done) sampleEnv
                (snd (Accept (\<lambda>p. CompletingSequence_Done) sampleEnv l2))) = AcceptBlocked
       \<and> fst (Accept (\<lambda>p. CloseCtx_Done) sampleEnv l2)
           = AcceptError ErrAcceptListenerClosed
       \<and> fst (Accept (\<lambda>p. Time_After) sampleEnv l2) = AcceptBlocked)"
proof -
  let ?l = "Listen sampleEnv 7"
  have request1: "sampleRequest1 8 = idOpenConnectionRequest1 sampleEnv # sampleMagic @ [8]"
    by (simp add: sampleRequest1_def sampleEnv_constants)
  have request2: "sampleRequest2 = idOpenConnectionRequest2 sampleEnv # tl sampleRequest2"
    by (simp add: sampleRequest2_def sampleEnv_constants)
  have noentry: "Load (connections ?l) sampleAddr = None"
    by (simp add: Load_def Listen_fields)
  have ids: "idOpenConnectionRequest1 sampleEnv \<noteq> idUnconnectedPing sampleEnv"
      "idOpenConnectionRequest2 sampleEnv \<noteq> idUnconnectedPing sampleEnv"
      "idOpenConnectionRequest2 sampleEnv \<noteq> idOpenConnectionRequest1 sampleEnv"
    by (simp_all add: sampleEnv_constants)
  have channel: "\<not> socket_closed ?l" "\<not> incoming_closed ?l"
      "length (incoming ?l) < incomingCap"
    by (simp_all add: Listen_fields incomingCap_def)
  have version: "req1_Protocol \<lparr>req1_Protocol = 8\<rparr> = protocol ?l"
    by (simp add: Listen_fields sampleEnv_constants)
  have sent: "\<not> writeToFails sampleEnv b sampleAddr" for b
    by (simp add: sampleEnv_network)
  note facts = handshake_registers_one_session
    [OF noentry ids channel read_sampleRequest1 version sampleEnv_codecs(1) sent
      unmarshal_sampleRequest2 sampleEnv_codecs(4) sent refl refl,
      of "\<lambda>p. CompletingSequence_Done"]
  note closing = handshake_registers_one_session
    [OF noentry ids channel read_sampleRequest1 version sampleEnv_codecs(1) sent
      unmarshal_sampleRequest2 sampleEnv_codecs(4) sent refl refl,
      of "\<lambda>p. CloseCtx_Done"]
  note timed_out = handshake_registers_one_session
    [OF noentry ids channel read_sampleRequest1 version sampleEnv_codecs(1) sent
      unmarshal_sampleRequest2 sampleEnv_codecs(4) sent refl refl,
      of "\<lambda>p. Time_After"]
  show ?thesis
    using facts closing timed_out
    unfolding request1 [symmetric] request2 [symmetric]
    by (simp add: Let_def Listen_fields Load_def)
qed

text \<open>
  The claim as stated fails: after the same two requests and the same two replies, when
  the 10 seconds of \<^verbatim>\<open>Accept\<close> pass before the session signals completion, \<^verbatim>\<open>Accept\<close>
  takes the session from the channel, closes it and is back in the receive from the
  empty channel: no session value is delivered for this handshake.
\<close>

theorem handshake_then_timeout_delivers_no_session:
  "(let l1 = snd (handle sampleEnv (Listen sampleEnv 7) (sampleRequest1 8) sampleAddr);
        l2 = snd (handle sampleEnv l1 sampleRequest2 sampleAddr)
    in fst (handle sampleEnv (Listen sampleEnv 7) (sampleRequest1 8) sampleAddr)
           = Returned None
       \<and> fst (handle sampleEnv l1 sampleRequest2 sampleAddr) = Returned None
       \<and> length (written l2) = 2
       \<and> incoming l2 = [0]
       \<and> fst (Accept (\<lambda>p. Time_After) sampleEnv l2) = AcceptBlocked
       \<and> incoming (snd (Accept (\<lambda>p. Time_After) sampleEnv l2)) = []
       \<and> conn_closed (conns (snd (Accept (\<lambda>p. Time_After) sampleEnv l2)) ! 0))"
proof -
  let ?l = "Listen sampleEnv 7"
  define l1 where "l1 = ?l\<lparr>written :=
      [(0x06 # sampleMagic @ putInt64 7 @ [0] @ putInt16 46, sampleAddr)]\<rparr>"
  have lid: "listener_id ?l = 7"
    by (simp add: Listen_def)
  have first: "handle sampleEnv ?l (sampleRequest1 8) sampleAddr = (Returned None, l1)"
    by (simp add: handle_def handleOpenConnectionRequest1_def WriteTo_def Let_def Load_def
        sampleRequest1_def read_sampleRequest1 sampleEnv_codecs sampleEnv_constants
        sampleEnv_network Listen_fields sampleMagic_length lid l1_def)
  have request2: "sampleRequest2 = idOpenConnectionRequest2 sampleEnv # tl sampleRequest2"
    by (simp add: sampleRequest2_def sampleEnv_constants)
  have noentry: "Load (connections l1) sampleAddr = None"
    by (simp add: Load_def Listen_fields l1_def)
  have ids: "idOpenConnectionRequest2 sampleEnv \<noteq> idUnconnectedPing sampleEnv"
      "idOpenConnectionRequest2 sampleEnv \<noteq> idOpenConnectionRequest1 sampleEnv"
    by (simp_all add: sampleEnv_constants)
  have channel: "\<not> incoming_closed l1" "length (incoming l1) < incomingCap"
    by (simp_all add: Listen_fields incomingCap_def l1_def)
  have opened: "\<not> socket_closed l1"
    by (simp add: Listen_fields l1_def)
  have sent: "\<not> writeToFails sampleEnv b sampleAddr" for b
    by (simp add: sampleEnv_network)
  have second: "handle sampleEnv l1 sampleRequest2 sampleAddr =
      (Returned None,
       l1\<lparr>written := written l1 @
             [(idOpenConnectionReply2 sampleEnv
                 # the (marshalOpenConnectionReply2 sampleEnv
                     \<lparr>reply2_Magic = magic sampleEnv, reply2_ServerGUID = listener_id l1,
                      reply2_ClientAddress = sampleAddr,
                      reply2_MTUSize = req2_MTUSize
                        \<lparr>req2_MTUSize = 1492, req2_ClientGUID = 42\<rparr>\<rparr>), sampleAddr)],
          conns := conns l1 @ [newConn sampleAddr
              (req2_MTUSize \<lparr>req2_MTUSize = 1492, req2_ClientGUID = 42\<rparr>)
              (req2_ClientGUID \<lparr>req2_MTUSize = 1492, req2_ClientGUID = 42\<rparr>)],
          connections := connections l1 @ [(sampleAddr, length (conns l1))],
          incoming := incoming l1 @ [length (conns l1)]\<rparr>)"
    using handle_request2_state
      [OF noentry ids unmarshal_sampleRequest2 _ opened sent channel,
        of "the (marshalOpenConnectionReply2 sampleEnv
             \<lparr>reply2_Magic = magic sampleEnv, reply2_ServerGUID = listener_id l1,
              reply2_ClientAddress = sampleAddr,
              reply2_MTUSize = req2_MTUSize
                \<lparr>req2_MTUSize = 1492, req2_ClientGUID = 42\<rparr>\<rparr>)"]
    unfolding request2 [symmetric]
    by (simp add: sampleEnv_codecs)
  show ?thesis
    unfolding Let_def first snd_conv fst_conv second
    by (simp add: Accept_def connClose_def Let_def l1_def Listen_fields newConn_def)
qed

subsection \<open>The timeout of Accept\<close>

lemma connClose_connections: "connections (snd (connClose env l p)) = connections l"
  by (simp add: connClose_def Let_def)

lemma connClose_watchers: "watchers (snd (connClose env l p)) = watchers l"
  by (simp add: connClose_def Let_def)

lemma connClose_incoming_closed:
  "incoming_closed (snd (connClose env l p)) = incoming_closed l"
  by (simp add: connClose_def Let_def)

text \<open>\<^verbatim>\<open>Accept\<close> never changes the session table, however its \<^verbatim>\<open>select\<close> goes.\<close>

lemma AcceptFrom_connections:
  "connections (snd (AcceptFrom sel env queue l)) = connections l"
  by (induction queue arbitrary: l)
    (simp_all add: connClose_connections split: select_case.splits)

text \<open>
  When every candidate in the channel times out, \<^verbatim>\<open>Accept\<close> returns no error: it is
  back in the receive from the channel (or reports the closed listener when the channel
  is closed), and it has started no goroutine that would delete a table entry.
\<close>

lemma AcceptFrom_all_timed_out:
  "list_all (\<lambda>p. sel p = Time_After) queue \<Longrightarrow>
   fst (AcceptFrom sel env queue l)
     = (if incoming_closed l then AcceptError ErrAcceptListenerClosed else AcceptBlocked)
   \<and> watchers (snd (AcceptFrom sel env queue l)) = watchers l"
  by (induction queue arbitrary: l)
    (simp_all add: connClose_watchers connClose_incoming_closed)

lemma handle_sampleRequest2:
  "handle sampleEnv (Listen sampleEnv 7) sampleRequest2 sampleAddr =
     (Returned None,
      (Listen sampleEnv 7)
        \<lparr>written := [(0x08 # sampleMagic @ putInt64 7 @ addrBytes sampleAddr
                        @ putInt16 1492 @ [0], sampleAddr)],
         conns := [newConn sampleAddr 1492 42],
         connections := [(sampleAddr, 0)],
         incoming := [0]\<rparr>)"
proof -
  let ?l = "Listen sampleEnv 7"
  have request2: "sampleRequest2 = idOpenConnectionRequest2 sampleEnv # tl sampleRequest2"
    by (simp add: sampleRequest2_def sampleEnv_constants)
  have noentry: "Load (connections ?l) sampleAddr = None"
    by (simp add: Load_def Listen_fields)
  have ids: "idOpenConnectionRequest2 sampleEnv \<noteq> idUnconnectedPing sampleEnv"
      "idOpenConnectionRequest2 sampleEnv \<noteq> idOpenConnectionRequest1 sampleEnv"
    by (simp_all add: sampleEnv_constants)
  have channel: "\<not> incoming_closed ?l" "length (incoming ?l) < incomingCap"
    by (simp_all add: Listen_fields incomingCap_def)
  have opened: "\<not> socket_closed ?l"
    by (simp add: Listen_fields)
  have sent: "\<not> writeToFails sampleEnv b sampleAddr" for b
    by (simp add: sampleEnv_network)
  have lid: "listener_id ?l = 7"
    by (simp add: Listen_def)
  show ?thesis
    using handle_request2_state
      [OF noentry ids unmarshal_sampleRequest2 sampleEnv_codecs(4) opened sent channel]
    unfolding request2 [symmetric]
    by (simp add: Listen_fields sampleEnv_constants lid)
qed

text \<open>
  Claim C4, on the code. One OpenConnectionRequest2 has made a session (pointer 0) for
  \<open>sampleAddr\<close>, and its handshake does not complete in time. \<^verbatim>\<open>Accept\<close> closes the session
  and goes back to waiting, without an error; but the table still maps the address to
  the closed session, no goroutine is there to delete the entry, and the next datagram
  from that address (a new OpenConnectionRequest2) goes to the closed session.
\<close>

theorem timed_out_candidate_keeps_its_table_entry:
  "(let l = snd (handle sampleEnv (Listen sampleEnv 7) sampleRequest2 sampleAddr);
        l' = snd (Accept (\<lambda>p. Time_After) sampleEnv l)
    in Load (connections l) sampleAddr = Some 0
       \<and> incoming l = [0]
       \<and> fst (Accept (\<lambda>p. Time_After) sampleEnv l) = AcceptBlocked
       \<and> conn_closed (conns l' ! 0)
       \<and> Load (connections l') sampleAddr = Some 0
       \<and> watchers l' = []
       \<and> watcher l' 0 = l'
       \<and> handle sampleEnv l' sampleRequest2 sampleAddr
           = (Returned None,
              l'\<lparr>conns := [(newConn sampleAddr 1492 42)
                   \<lparr>conn_closed := True, conn_received := [sampleRequest2]\<rparr>]\<rparr>))"
proof -
  define l where "l = (Listen sampleEnv 7)
        \<lparr>written := [(0x08 # sampleMagic @ putInt64 7 @ addrBytes sampleAddr
                        @ putInt16 1492 @ [0], sampleAddr)],
         conns := [newConn sampleAddr 1492 42],
         connections := [(sampleAddr, 0)],
         incoming := [0]\<rparr>"
  define l' where "l' = l\<lparr>incoming := [],
         conns := [(newConn sampleAddr 1492 42)\<lparr>conn_closed := True\<rparr>]\<rparr>"
  have first: "handle sampleEnv (Listen sampleEnv 7) sampleRequest2 sampleAddr
      = (Returned None, l)"
    unfolding l_def by (rule handle_sampleRequest2)
  have timeout: "Accept (\<lambda>p. Time_After) sampleEnv l = (AcceptBlocked, l')"
    by (simp add: Accept_def connClose_def Let_def l_def l'_def Listen_fields)
  have entry: "Load (connections l') sampleAddr = Some 0"
    by (simp add: Load_def l_def l'_def)
  have next_datagram: "handle sampleEnv l' sampleRequest2 sampleAddr
      = (Returned None,
         l'\<lparr>conns := [(newConn sampleAddr 1492 42)
              \<lparr>conn_closed := True, conn_received := [sampleRequest2]\<rparr>]\<rparr>)"
    using entry
    by (simp add: handle_def receive_def Let_def sampleEnv_network)
      (simp add: l'_def newConn_def)
  have state: "Load (connections l) sampleAddr = Some 0" "incoming l = [0]"
      "conn_closed (conns l' ! 0)" "watchers l' = []" "watcher l' 0 = l'"
    by (simp_all add: Load_def watcher_def l_def l'_def Listen_fields)
  show ?thesis
    by (simp add: Let_def first timeout entry next_datagram state)
qed

subsection \<open>Close\<close>

text \<open>
  \<^verbatim>\<open>err\<close> is \<^verbatim>\<open>nil\<close> when \<^verbatim>\<open>Range\<close> starts and the function passed to it sets \<^verbatim>\<open>err\<close> only
  when \<^verbatim>\<open>err\<close> is not \<^verbatim>\<open>nil\<close>: it stays \<^verbatim>\<open>nil\<close>, whatever the sessions return.
\<close>

lemma closeEntry_keeps_nil: "fst (closeEntry env (None, l) e) = None"
  by (simp add: closeEntry_def connClose_def Let_def)

lemma Range_keeps_nil: "fst (foldl (closeEntry env) (None, l) es) = None"
proof (induction es arbitrary: l)
  case Nil
  show ?case by simp
next
  case (Cons e es)
  obtain l' where "closeEntry env (None, l) e = (None, l')"
    using closeEntry_keeps_nil [of env l e] by (cases "closeEntry env (None, l) e") auto
  then show ?case
    using Cons.IH [of l'] by simp
qed

lemma Close_never_reports_a_session:
  "fst (Close env l) = None \<or> fst (Close env l) = Some ErrClosingUDPListener"
proof -
  obtain l' where "foldl (closeEntry env) (None, l\<lparr>closeCtx_done := True\<rparr>) (connections l)
      = (None, l')"
    using Range_keeps_nil [of env "l\<lparr>closeCtx_done := True\<rparr>" "connections l"]
    by (cases "foldl (closeEntry env) (None, l\<lparr>closeCtx_done := True\<rparr>) (connections l)") auto
  then show ?thesis
    by (simp add: Close_def Let_def)
qed

text \<open>
  Claim C2, on the code. The listener has one registered session, whose \<^verbatim>\<open>Close\<close> returns
  an error. \<^verbatim>\<open>Listener.Close\<close> closes the session and the socket and returns \<^verbatim>\<open>nil\<close>.
\<close>

theorem Close_returns_nil_when_a_session_fails_to_close:
  "(let env = sampleEnv\<lparr>closeFails := (\<lambda>conn. True)\<rparr>;
        l = snd (handle sampleEnv (Listen sampleEnv 7) sampleRequest2 sampleAddr)
    in connections l = [(sampleAddr, 0)]
       \<and> fst (connClose env l 0) = Some ErrConnClose
       \<and> fst (Close env l) = None
       \<and> conn_closed (conns (snd (Close env l)) ! 0)
       \<and> socket_closed (snd (Close env l)))"
  by (simp add: handle_sampleRequest2 Let_def Close_def closeEntry_def connClose_def
      newConn_def sampleEnv_network Listen_fields)

subsection \<open>The size of the rewritten payload\<close>

text \<open>
  The rewritten payload is at most 33 bytes longer than the fetched one: 8 semicolons,
  at most 20 bytes of the id and the 5 bytes of \<^verbatim>\<open>"Proxy"\<close>. So a fetched payload of at
  most 32734 bytes passes the guard of \<^verbatim>\<open>PongData\<close> after the rewrite.
\<close>

lemma Join_length:
  "length (Join fs sep) = sum_list (map length fs) + (length fs - 1)"
  by (induction fs sep rule: Join.induct) simp_all

lemma Join_Split: "Join (Split d sep) sep = d"
proof (induction d)
  case Nil
  show ?case by simp
next
  case (Cons x xs)
  obtain f fs where sp: "Split xs sep = f # fs"
    using Split_not_Nil [of xs sep] by (cases "Split xs sep") auto
  show ?case
  proof (cases "x = sep")
    case True
    with Cons sp show ?thesis by simp
  next
    case False
    have "Join ((x # f) # fs) sep = x # Join (f # fs) sep"
      by (cases fs) simp_all
    with Cons sp False show ?thesis by simp
  qed
qed

lemma Split_total_length: "sum_list (map length (Split d sep)) \<le> length d"
proof -
  have "length (Join (Split d sep) sep) = length d"
    by (simp add: Join_Split)
  then show ?thesis
    by (simp add: Join_length)
qed

lemma take_total_length:
  "sum_list (map length (take n (fs :: byte list list))) \<le> sum_list (map length fs)"
proof -
  have "sum_list (map length fs)
      = sum_list (map length (take n fs)) + sum_list (map length (drop n fs))"
    by (metis append_take_drop_id map_append sum_list_append)
  then show ?thesis by simp
qed

lemma natDigits_length: "0 < k \<Longrightarrow> n < 10 ^ k \<Longrightarrow> length (natDigits n) \<le> k"
proof (induction n arbitrary: k rule: natDigits.induct)
  case (1 n)
  show ?case
  proof (cases "n < 10")
    case True
    then show ?thesis using "1.prems" by (subst natDigits.simps) simp
  next
    case False
    with "1.prems" have "1 < k"
      by (cases "k = 1") auto
    then obtain j where k: "k = Suc j" and j: "0 < j"
      by (cases k) auto
    have "n div 10 < 10 ^ j"
      using "1.prems" k by (simp add: less_mult_imp_div_less mult.commute)
    then have "length (natDigits (n div 10)) \<le> j"
      using "1.IH" [OF False j] by simp
    then show ?thesis
      using False k by (subst natDigits.simps) simp
  qed
qed

lemma sint64_lower: "- (2 ^ 63) \<le> sint (lid :: int64)"
  using sint_ge [of lid] by simp

lemma sint64_upper: "sint (lid :: int64) < 2 ^ 63"
  using sint_lt [of lid] by simp

lemma two_63_below_ten_19: "(2 :: nat) ^ 63 < 10 ^ 19"
  by simp

lemma nat_below: "k \<le> 2 ^ 63 \<Longrightarrow> nat k < 10 ^ 19" for k :: int
proof -
  assume "k \<le> 2 ^ 63"
  then have "nat k \<le> nat (2 ^ 63)"
    by (rule nat_mono)
  also have "nat (2 ^ 63) = (2 :: nat) ^ 63"
    by simp
  also have "(2 :: nat) ^ 63 < 10 ^ 19"
    by (rule two_63_below_ten_19)
  finally show ?thesis .
qed

lemma Itoa_length: "length (Itoa (sint (lid :: int64))) \<le> 20"
proof (cases "sint lid < 0")
  case True
  have "- sint lid \<le> 2 ^ 63"
    using sint64_lower [of lid] by linarith
  then have "nat (- sint lid) < 10 ^ 19"
    by (rule nat_below)
  then have "length (natDigits (nat (- sint lid))) \<le> 19"
    by (intro natDigits_length) simp_all
  with True show ?thesis
    by (simp add: Itoa_def)
next
  case False
  have "sint lid \<le> 2 ^ 63"
    using sint64_upper [of lid] by linarith
  then have "nat (sint lid) < 10 ^ 19"
    by (rule nat_below)
  then have "length (natDigits (nat (sint lid))) \<le> 19"
    by (intro natDigits_length) simp_all
  with False show ?thesis
    by (simp add: Itoa_def)
qed

lemma rewritten_payload_length:
  "length (Join (rewriteFragments lid data) semicolon) \<le> length data + 33"
proof -
  let ?fs = "Split data semicolon @ replicate (9 - length (Split data semicolon)) []"
  have "sum_list (map length (take 6 ?fs)) \<le> sum_list (map length ?fs)"
    by (rule take_total_length)
  also have "sum_list (map length ?fs) = sum_list (map length (Split data semicolon))"
    by simp
  also have "\<dots> \<le> length data"
    by (rule Split_total_length)
  finally have first: "sum_list (map length (take 6 ?fs)) \<le> length data" .
  have "length (Join (rewriteFragments lid data) semicolon)
      = sum_list (map length (take 6 ?fs)) + length (Itoa (sint lid)) + length Proxy + 8"
    unfolding Join_length rewriteFragments_length
    by (simp add: rewriteFragments_eq del: take_append)
  then show ?thesis
    using first Itoa_length [of lid] by (simp add: Proxy_def)
qed

lemma rewritten_payload_fits:
  "length data \<le> 32734 \<Longrightarrow> length (Join (rewriteFragments lid data) semicolon) \<le> 32767"
  using rewritten_payload_length [of lid data] by simp

end
